theory Spec2Isabelle
  imports Complex_Main "HOL-Library.Sublist"
begin

section \<open>A trend-alert bot: signal evaluation, change tracking, command handlers\<close>

text \<open>
  The program is one Python module, \<^verbatim>\<open>main.py\<close>. It fetches candles for one
  trading pair, asks an indicator library for the SuperTrend direction of the last bar,
  and tells a Telegram chat when that direction differs from the one it announced last.
  Four chat commands answer on demand.

  The exchange client, the indicator library, the Telegram client, the clock and the
  logger are libraries. Their answers are inputs of the model (the record \<open>world\<close>), and
  the calls the program makes to them are its output (a list of \<open>effect\<close>s, in program
  order). An exception is a value: a block that can raise returns \<open>py_exception + 'a\<close>,
  with \<open>Inl\<close> for the exception, and every \<^verbatim>\<open>try\<close>/\<^verbatim>\<open>except\<close> of the source is a case
  distinction on such a value. Writing a log entry, sleeping and reading the clock are
  taken not to raise.
\<close>

subsection \<open>Python values\<close>

text \<open>
  A Python \<^verbatim>\<open>float\<close>: a finite float is the rational it denotes. \<open>py_eq\<close> is
  Python's \<^verbatim>\<open>==\<close> on floats, for which NaN equals nothing, itself included.
\<close>

datatype pyfloat = Finite rat | NaN | PosInf | NegInf

definition py_eq :: "pyfloat \<Rightarrow> pyfloat \<Rightarrow> bool" where
  "py_eq x y = (x \<noteq> NaN \<and> y \<noteq> NaN \<and> x = y)"

text \<open>
  The exceptions the libraries and the program raise, each with its message; all of them
  are instances of \<^verbatim>\<open>Exception\<close>. \<^verbatim>\<open>ccxt.NetworkError\<close> and \<^verbatim>\<open>ccxt.ExchangeError\<close>
  are distinct branches of \<^verbatim>\<open>ccxt.BaseError\<close>; \<open>OtherException\<close> stands for every
  other class. \<^verbatim>\<open>KeyboardInterrupt\<close> is not an \<^verbatim>\<open>Exception\<close>; it reaches the main
  thread only and is an outcome of the listener (\<open>poll_outcome\<close> below).
\<close>

datatype py_exception =
    NetworkError string
  | ExchangeError string
  | ValueError string
  | OtherException string

fun str_exc :: "py_exception \<Rightarrow> string" where
  "str_exc (NetworkError m) = m"
| "str_exc (ExchangeError m) = m"
| "str_exc (ValueError m) = m"
| "str_exc (OtherException m) = m"

text \<open>Python's \<^verbatim>\<open>str\<close> of a non-negative and of any integer, in decimal.\<close>

function str_nat :: "nat \<Rightarrow> string" where
  "str_nat n = (if n < 10 then [''0123456789'' ! n]
                else str_nat (n div 10) @ [''0123456789'' ! (n mod 10)])"
  by pat_completeness auto
termination
  by (relation "measure (\<lambda>n. n)") auto

declare str_nat.simps [simp del]

definition str_int :: "int \<Rightarrow> string" where
  "str_int i = (if i < 0 then ''-'' @ str_nat (nat (- i)) else str_nat (nat i))"

text \<open>
  Truth value of an \<^verbatim>\<open>os.getenv\<close> result: \<^verbatim>\<open>None\<close> and the empty string are false.
\<close>

fun truthy :: "string option \<Rightarrow> bool" where
  "truthy None = False"
| "truthy (Some s) = (s \<noteq> [])"

subsection \<open>String literals of the source\<close>

text \<open>
  Text is modelled as its UTF-8 bytes. The literals of the source are Russian and carry
  emoji, so each is given byte by byte, with the line it comes from and its meaning.
\<close>

definition SYMBOL :: string where
  "SYMBOL = ''BTC/USDT''"

definition TIMEFRAME :: string where
  "TIMEFRAME = ''15m''"

definition CHECK_INTERVAL :: nat where
  "CHECK_INTERVAL = 900"

definition msg_env_missing :: string where
  \<comment> \<open>line 27, the ValueError text: TELEGRAM_TOKEN or TELEGRAM_CHAT_ID is not set\<close>
  "msg_env_missing =
     [CHR 0xD0, CHR 0x9D, CHR 0xD0, CHR 0xB5] @ '' '' @
     [CHR 0xD1, CHR 0x83, CHR 0xD1, CHR 0x81, CHR 0xD1, CHR 0x82, CHR 0xD0, CHR 0xB0] @
     [CHR 0xD0, CHR 0xBD, CHR 0xD0, CHR 0xBE, CHR 0xD0, CHR 0xB2, CHR 0xD0, CHR 0xBB] @
     [CHR 0xD0, CHR 0xB5, CHR 0xD0, CHR 0xBD, CHR 0xD1, CHR 0x8B] @ '' TELEGRAM_TOKEN '' @
     [CHR 0xD0, CHR 0xB8, CHR 0xD0, CHR 0xBB, CHR 0xD0, CHR 0xB8] @ '' TELEGRAM_CHAT_ID''"

definition msg_empty_data :: string where
  \<comment> \<open>line 50: empty data received from the exchange\<close>
  "msg_empty_data =
     [CHR 0xD0, CHR 0x9F, CHR 0xD0, CHR 0xBE, CHR 0xD0, CHR 0xBB, CHR 0xD1, CHR 0x83] @
     [CHR 0xD1, CHR 0x87, CHR 0xD0, CHR 0xB5, CHR 0xD0, CHR 0xBD, CHR 0xD1, CHR 0x8B] @ '' '' @
     [CHR 0xD0, CHR 0xBF, CHR 0xD1, CHR 0x83, CHR 0xD1, CHR 0x81, CHR 0xD1, CHR 0x82] @
     [CHR 0xD1, CHR 0x8B, CHR 0xD0, CHR 0xB5] @ '' '' @
     [CHR 0xD0, CHR 0xB4, CHR 0xD0, CHR 0xB0, CHR 0xD0, CHR 0xBD, CHR 0xD0, CHR 0xBD] @
     [CHR 0xD1, CHR 0x8B, CHR 0xD0, CHR 0xB5] @ '' '' @ [CHR 0xD1, CHR 0x81] @ '' '' @
     [CHR 0xD0, CHR 0xB1, CHR 0xD0, CHR 0xB8, CHR 0xD1, CHR 0x80, CHR 0xD0, CHR 0xB6] @
     [CHR 0xD0, CHR 0xB8]"

definition msg_no_supertrend :: string where
  \<comment> \<open>line 63: SuperTrend could not be computed\<close>
  "msg_no_supertrend =
     [CHR 0xD0, CHR 0x9D, CHR 0xD0, CHR 0xB5] @ '' '' @
     [CHR 0xD1, CHR 0x83, CHR 0xD0, CHR 0xB4, CHR 0xD0, CHR 0xB0, CHR 0xD0, CHR 0xBB] @
     [CHR 0xD0, CHR 0xBE, CHR 0xD1, CHR 0x81, CHR 0xD1, CHR 0x8C] @ '' '' @
     [CHR 0xD1, CHR 0x80, CHR 0xD0, CHR 0xB0, CHR 0xD1, CHR 0x81, CHR 0xD1, CHR 0x81] @
     [CHR 0xD1, CHR 0x87, CHR 0xD0, CHR 0xB8, CHR 0xD1, CHR 0x82, CHR 0xD0, CHR 0xB0] @
     [CHR 0xD1, CHR 0x82, CHR 0xD1, CHR 0x8C] @ '' SuperTrend''"

definition BUY :: string where
  \<comment> \<open>line 71: BUY and U+1F7E2\<close>
  "BUY =
     ''BUY '' @ [CHR 0xF0, CHR 0x9F, CHR 0x9F, CHR 0xA2]"

definition SELL :: string where
  \<comment> \<open>line 71: SELL and U+1F534\<close>
  "SELL =
     ''SELL '' @ [CHR 0xF0, CHR 0x9F, CHR 0x94, CHR 0xB4]"

definition msg_signal :: string where
  \<comment> \<open>line 76: Signal:\<close>
  "msg_signal =
     [CHR 0xD0, CHR 0xA1, CHR 0xD0, CHR 0xB8, CHR 0xD0, CHR 0xB3, CHR 0xD0, CHR 0xBD] @
     [CHR 0xD0, CHR 0xB0, CHR 0xD0, CHR 0xBB] @ '': ''"

definition msg_at_price :: string where
  \<comment> \<open>line 76: at price\<close>
  "msg_at_price =
     '' '' @ [CHR 0xD0, CHR 0xBF, CHR 0xD0, CHR 0xBE] @ '' '' @
     [CHR 0xD1, CHR 0x86, CHR 0xD0, CHR 0xB5, CHR 0xD0, CHR 0xBD, CHR 0xD0, CHR 0xB5] @ '' ''"

definition msg_network_error :: string where
  \<comment> \<open>line 80: network error while fetching data:\<close>
  "msg_network_error =
     [CHR 0xD0, CHR 0x9E, CHR 0xD1, CHR 0x88, CHR 0xD0, CHR 0xB8, CHR 0xD0, CHR 0xB1] @
     [CHR 0xD0, CHR 0xBA, CHR 0xD0, CHR 0xB0] @ '' '' @
     [CHR 0xD1, CHR 0x81, CHR 0xD0, CHR 0xB5, CHR 0xD1, CHR 0x82, CHR 0xD0, CHR 0xB8] @ '' '' @
     [CHR 0xD0, CHR 0xBF, CHR 0xD1, CHR 0x80, CHR 0xD0, CHR 0xB8] @ '' '' @
     [CHR 0xD0, CHR 0xBF, CHR 0xD0, CHR 0xBE, CHR 0xD0, CHR 0xBB, CHR 0xD1, CHR 0x83] @
     [CHR 0xD1, CHR 0x87, CHR 0xD0, CHR 0xB5, CHR 0xD0, CHR 0xBD, CHR 0xD0, CHR 0xB8] @
     [CHR 0xD0, CHR 0xB8] @ '' '' @
     [CHR 0xD0, CHR 0xB4, CHR 0xD0, CHR 0xB0, CHR 0xD0, CHR 0xBD, CHR 0xD0, CHR 0xBD] @
     [CHR 0xD1, CHR 0x8B, CHR 0xD1, CHR 0x85] @ '': ''"

definition msg_exchange_error :: string where
  \<comment> \<open>line 83: exchange error:\<close>
  "msg_exchange_error =
     [CHR 0xD0, CHR 0x9E, CHR 0xD1, CHR 0x88, CHR 0xD0, CHR 0xB8, CHR 0xD0, CHR 0xB1] @
     [CHR 0xD0, CHR 0xBA, CHR 0xD0, CHR 0xB0] @ '' '' @
     [CHR 0xD0, CHR 0xB1, CHR 0xD0, CHR 0xB8, CHR 0xD1, CHR 0x80, CHR 0xD0, CHR 0xB6] @
     [CHR 0xD0, CHR 0xB8] @ '': ''"

definition msg_unexpected_error :: string where
  \<comment> \<open>line 86: unexpected error while getting the signal:\<close>
  "msg_unexpected_error =
     [CHR 0xD0, CHR 0x9D, CHR 0xD0, CHR 0xB5, CHR 0xD0, CHR 0xBE, CHR 0xD0, CHR 0xB6] @
     [CHR 0xD0, CHR 0xB8, CHR 0xD0, CHR 0xB4, CHR 0xD0, CHR 0xB0, CHR 0xD0, CHR 0xBD] @
     [CHR 0xD0, CHR 0xBD, CHR 0xD0, CHR 0xB0, CHR 0xD1, CHR 0x8F] @ '' '' @
     [CHR 0xD0, CHR 0xBE, CHR 0xD1, CHR 0x88, CHR 0xD0, CHR 0xB8, CHR 0xD0, CHR 0xB1] @
     [CHR 0xD0, CHR 0xBA, CHR 0xD0, CHR 0xB0] @ '' '' @
     [CHR 0xD0, CHR 0xBF, CHR 0xD1, CHR 0x80, CHR 0xD0, CHR 0xB8] @ '' '' @
     [CHR 0xD0, CHR 0xBF, CHR 0xD0, CHR 0xBE, CHR 0xD0, CHR 0xBB, CHR 0xD1, CHR 0x83] @
     [CHR 0xD1, CHR 0x87, CHR 0xD0, CHR 0xB5, CHR 0xD0, CHR 0xBD, CHR 0xD0, CHR 0xB8] @
     [CHR 0xD0, CHR 0xB8] @ '' '' @
     [CHR 0xD1, CHR 0x81, CHR 0xD0, CHR 0xB8, CHR 0xD0, CHR 0xB3, CHR 0xD0, CHR 0xBD] @
     [CHR 0xD0, CHR 0xB0, CHR 0xD0, CHR 0xBB, CHR 0xD0, CHR 0xB0] @ '': ''"

definition fmt_head :: string where
  \<comment> \<open>line 92\<close>
  "fmt_head =
     [CHR 0xF0, CHR 0x9F, CHR 0x93, CHR 0x8A] @ '' <b>''"

definition fmt_signal :: string where
  \<comment> \<open>lines 92-93: Signal:\<close>
  "fmt_signal =
     ''</b>'' @ [CHR 0x0A, CHR 0xE2, CHR 0x9A, CHR 0xA1, CHR 0xEF, CHR 0xB8, CHR 0x8F] @ '' '' @
     [CHR 0xD0, CHR 0xA1, CHR 0xD0, CHR 0xB8, CHR 0xD0, CHR 0xB3, CHR 0xD0, CHR 0xBD] @
     [CHR 0xD0, CHR 0xB0, CHR 0xD0, CHR 0xBB] @ '': <b>''"

definition fmt_price :: string where
  \<comment> \<open>lines 93-94: Price:\<close>
  "fmt_price =
     ''</b>'' @ [CHR 0x0A, CHR 0xF0, CHR 0x9F, CHR 0x92, CHR 0xB0] @ '' '' @
     [CHR 0xD0, CHR 0xA6, CHR 0xD0, CHR 0xB5, CHR 0xD0, CHR 0xBD, CHR 0xD0, CHR 0xB0] @
     '': <code>''"

definition fmt_time :: string where
  \<comment> \<open>lines 94-95: Time:\<close>
  "fmt_time =
     ''</code> USDT'' @ [CHR 0x0A, CHR 0xF0, CHR 0x9F, CHR 0x95, CHR 0x90] @ '' '' @
     [CHR 0xD0, CHR 0x92, CHR 0xD1, CHR 0x80, CHR 0xD0, CHR 0xB5, CHR 0xD0, CHR 0xBC] @
     [CHR 0xD1, CHR 0x8F] @ '': ''"

definition msg_started :: string where
  \<comment> \<open>line 101: automatic checking started\<close>
  "msg_started =
     [CHR 0xD0, CHR 0x90, CHR 0xD0, CHR 0xB2, CHR 0xD1, CHR 0x82, CHR 0xD0, CHR 0xBE] @
     [CHR 0xD0, CHR 0xBC, CHR 0xD0, CHR 0xB0, CHR 0xD1, CHR 0x82, CHR 0xD0, CHR 0xB8] @
     [CHR 0xD1, CHR 0x87, CHR 0xD0, CHR 0xB5, CHR 0xD1, CHR 0x81, CHR 0xD0, CHR 0xBA] @
     [CHR 0xD0, CHR 0xB0, CHR 0xD1, CHR 0x8F] @ '' '' @
     [CHR 0xD0, CHR 0xBF, CHR 0xD1, CHR 0x80, CHR 0xD0, CHR 0xBE, CHR 0xD0, CHR 0xB2] @
     [CHR 0xD0, CHR 0xB5, CHR 0xD1, CHR 0x80, CHR 0xD0, CHR 0xBA, CHR 0xD0, CHR 0xB0] @ '' '' @
     [CHR 0xD0, CHR 0xB7, CHR 0xD0, CHR 0xB0, CHR 0xD0, CHR 0xBF, CHR 0xD1, CHR 0x83] @
     [CHR 0xD1, CHR 0x89, CHR 0xD0, CHR 0xB5, CHR 0xD0, CHR 0xBD, CHR 0xD0, CHR 0xB0]"

definition new_signal_head :: string where
  \<comment> \<open>line 110: NEW SIGNAL!\<close>
  "new_signal_head =
     [CHR 0xF0, CHR 0x9F, CHR 0x94, CHR 0x94] @ '' <b>'' @
     [CHR 0xD0, CHR 0x9D, CHR 0xD0, CHR 0x9E, CHR 0xD0, CHR 0x92, CHR 0xD0, CHR 0xAB] @
     [CHR 0xD0, CHR 0x99] @ '' '' @
     [CHR 0xD0, CHR 0xA1, CHR 0xD0, CHR 0x98, CHR 0xD0, CHR 0x93, CHR 0xD0, CHR 0x9D] @
     [CHR 0xD0, CHR 0x90, CHR 0xD0, CHR 0x9B] @ ''!</b>'' @ [CHR 0x0A, CHR 0x0A]"

definition msg_notified :: string where
  \<comment> \<open>line 113: notification about a new signal sent:\<close>
  "msg_notified =
     [CHR 0xD0, CHR 0x9E, CHR 0xD1, CHR 0x82, CHR 0xD0, CHR 0xBF, CHR 0xD1, CHR 0x80] @
     [CHR 0xD0, CHR 0xB0, CHR 0xD0, CHR 0xB2, CHR 0xD0, CHR 0xBB, CHR 0xD0, CHR 0xB5] @
     [CHR 0xD0, CHR 0xBD, CHR 0xD0, CHR 0xBE] @ '' '' @
     [CHR 0xD1, CHR 0x83, CHR 0xD0, CHR 0xB2, CHR 0xD0, CHR 0xB5, CHR 0xD0, CHR 0xB4] @
     [CHR 0xD0, CHR 0xBE, CHR 0xD0, CHR 0xBC, CHR 0xD0, CHR 0xBB, CHR 0xD0, CHR 0xB5] @
     [CHR 0xD0, CHR 0xBD, CHR 0xD0, CHR 0xB8, CHR 0xD0, CHR 0xB5] @ '' '' @
     [CHR 0xD0, CHR 0xBE] @ '' '' @
     [CHR 0xD0, CHR 0xBD, CHR 0xD0, CHR 0xBE, CHR 0xD0, CHR 0xB2, CHR 0xD0, CHR 0xBE] @
     [CHR 0xD0, CHR 0xBC] @ '' '' @
     [CHR 0xD1, CHR 0x81, CHR 0xD0, CHR 0xB8, CHR 0xD0, CHR 0xB3, CHR 0xD0, CHR 0xBD] @
     [CHR 0xD0, CHR 0xB0, CHR 0xD0, CHR 0xBB, CHR 0xD0, CHR 0xB5] @ '': ''"

definition msg_loop_error :: string where
  \<comment> \<open>line 118: error in the auto_check loop:\<close>
  "msg_loop_error =
     [CHR 0xD0, CHR 0x9E, CHR 0xD1, CHR 0x88, CHR 0xD0, CHR 0xB8, CHR 0xD0, CHR 0xB1] @
     [CHR 0xD0, CHR 0xBA, CHR 0xD0, CHR 0xB0] @ '' '' @ [CHR 0xD0, CHR 0xB2] @ '' '' @
     [CHR 0xD1, CHR 0x86, CHR 0xD0, CHR 0xB8, CHR 0xD0, CHR 0xBA, CHR 0xD0, CHR 0xBB] @
     [CHR 0xD0, CHR 0xB5] @ '' auto_check: ''"

definition msg_stopped :: string where
  \<comment> \<open>line 124: automatic checking stopped\<close>
  "msg_stopped =
     [CHR 0xD0, CHR 0x90, CHR 0xD0, CHR 0xB2, CHR 0xD1, CHR 0x82, CHR 0xD0, CHR 0xBE] @
     [CHR 0xD0, CHR 0xBC, CHR 0xD0, CHR 0xB0, CHR 0xD1, CHR 0x82, CHR 0xD0, CHR 0xB8] @
     [CHR 0xD1, CHR 0x87, CHR 0xD0, CHR 0xB5, CHR 0xD1, CHR 0x81, CHR 0xD0, CHR 0xBA] @
     [CHR 0xD0, CHR 0xB0, CHR 0xD1, CHR 0x8F] @ '' '' @
     [CHR 0xD0, CHR 0xBF, CHR 0xD1, CHR 0x80, CHR 0xD0, CHR 0xBE, CHR 0xD0, CHR 0xB2] @
     [CHR 0xD0, CHR 0xB5, CHR 0xD1, CHR 0x80, CHR 0xD0, CHR 0xBA, CHR 0xD0, CHR 0xB0] @ '' '' @
     [CHR 0xD0, CHR 0xBE, CHR 0xD1, CHR 0x81, CHR 0xD1, CHR 0x82, CHR 0xD0, CHR 0xB0] @
     [CHR 0xD0, CHR 0xBD, CHR 0xD0, CHR 0xBE, CHR 0xD0, CHR 0xB2, CHR 0xD0, CHR 0xBB] @
     [CHR 0xD0, CHR 0xB5, CHR 0xD0, CHR 0xBD, CHR 0xD0, CHR 0xB0]"

definition welcome_1 :: string where
  \<comment> \<open>lines 133-134: welcome, tracked pair:\<close>
  "welcome_1 =
     [CHR 0xF0, CHR 0x9F, CHR 0x91, CHR 0x8B] @ '' <b>'' @
     [CHR 0xD0, CHR 0x94, CHR 0xD0, CHR 0xBE, CHR 0xD0, CHR 0xB1, CHR 0xD1, CHR 0x80] @
     [CHR 0xD0, CHR 0xBE] @ '' '' @
     [CHR 0xD0, CHR 0xBF, CHR 0xD0, CHR 0xBE, CHR 0xD0, CHR 0xB6, CHR 0xD0, CHR 0xB0] @
     [CHR 0xD0, CHR 0xBB, CHR 0xD0, CHR 0xBE, CHR 0xD0, CHR 0xB2, CHR 0xD0, CHR 0xB0] @
     [CHR 0xD1, CHR 0x82, CHR 0xD1, CHR 0x8C] @ '' '' @ [CHR 0xD0, CHR 0xB2] @ '' '' @
     [CHR 0xD1, CHR 0x82, CHR 0xD0, CHR 0xBE, CHR 0xD1, CHR 0x80, CHR 0xD0, CHR 0xB3] @
     [CHR 0xD0, CHR 0xBE, CHR 0xD0, CHR 0xB2, CHR 0xD0, CHR 0xBE, CHR 0xD0, CHR 0xB3] @
     [CHR 0xD0, CHR 0xBE] @ '' '' @
     [CHR 0xD0, CHR 0xB1, CHR 0xD0, CHR 0xBE, CHR 0xD1, CHR 0x82, CHR 0xD0, CHR 0xB0] @
     ''!</b>'' @ [CHR 0x0A, CHR 0x0A, CHR 0xF0, CHR 0x9F, CHR 0x93, CHR 0x88] @ '' '' @
     [CHR 0xD0, CHR 0x9E, CHR 0xD1, CHR 0x82, CHR 0xD1, CHR 0x81, CHR 0xD0, CHR 0xBB] @
     [CHR 0xD0, CHR 0xB5, CHR 0xD0, CHR 0xB6, CHR 0xD0, CHR 0xB8, CHR 0xD0, CHR 0xB2] @
     [CHR 0xD0, CHR 0xB0, CHR 0xD0, CHR 0xB5, CHR 0xD0, CHR 0xBC, CHR 0xD0, CHR 0xB0] @
     [CHR 0xD1, CHR 0x8F] @ '' '' @
     [CHR 0xD0, CHR 0xBF, CHR 0xD0, CHR 0xB0, CHR 0xD1, CHR 0x80, CHR 0xD0, CHR 0xB0] @
     '': <code>''"

definition welcome_2 :: string where
  \<comment> \<open>lines 134-135: timeframe:\<close>
  "welcome_2 =
     ''</code>'' @ [CHR 0x0A, CHR 0xE2, CHR 0x8F, CHR 0xB1] @ '' '' @
     [CHR 0xD0, CHR 0xA2, CHR 0xD0, CHR 0xB0, CHR 0xD0, CHR 0xB9, CHR 0xD0, CHR 0xBC] @
     [CHR 0xD1, CHR 0x84, CHR 0xD1, CHR 0x80, CHR 0xD0, CHR 0xB5, CHR 0xD0, CHR 0xB9] @
     [CHR 0xD0, CHR 0xBC] @ '': <code>''"

definition welcome_3 :: string where
  \<comment> \<open>lines 135-140: indicator and the list of commands\<close>
  "welcome_3 =
     ''</code>'' @ [CHR 0x0A, CHR 0xF0, CHR 0x9F, CHR 0x93, CHR 0x8A] @ '' '' @
     [CHR 0xD0, CHR 0x98, CHR 0xD0, CHR 0xBD, CHR 0xD0, CHR 0xB4, CHR 0xD0, CHR 0xB8] @
     [CHR 0xD0, CHR 0xBA, CHR 0xD0, CHR 0xB0, CHR 0xD1, CHR 0x82, CHR 0xD0, CHR 0xBE] @
     [CHR 0xD1, CHR 0x80] @ '': SuperTrend (10, 3.0)'' @ [CHR 0x0A, CHR 0x0A] @ ''<b>'' @
     [CHR 0xD0, CHR 0x94, CHR 0xD0, CHR 0xBE, CHR 0xD1, CHR 0x81, CHR 0xD1, CHR 0x82] @
     [CHR 0xD1, CHR 0x83, CHR 0xD0, CHR 0xBF, CHR 0xD0, CHR 0xBD, CHR 0xD1, CHR 0x8B] @
     [CHR 0xD0, CHR 0xB5] @ '' '' @
     [CHR 0xD0, CHR 0xBA, CHR 0xD0, CHR 0xBE, CHR 0xD0, CHR 0xBC, CHR 0xD0, CHR 0xB0] @
     [CHR 0xD0, CHR 0xBD, CHR 0xD0, CHR 0xB4, CHR 0xD1, CHR 0x8B] @ '':</b>'' @ [CHR 0x0A] @
     ''/status - '' @
     [CHR 0xD1, CHR 0x82, CHR 0xD0, CHR 0xB5, CHR 0xD0, CHR 0xBA, CHR 0xD1, CHR 0x83] @
     [CHR 0xD1, CHR 0x89, CHR 0xD0, CHR 0xB8, CHR 0xD0, CHR 0xB9] @ '' '' @
     [CHR 0xD1, CHR 0x81, CHR 0xD0, CHR 0xB8, CHR 0xD0, CHR 0xB3, CHR 0xD0, CHR 0xBD] @
     [CHR 0xD0, CHR 0xB0, CHR 0xD0, CHR 0xBB, CHR 0x0A] @ ''/info - '' @
     [CHR 0xD0, CHR 0xB8, CHR 0xD0, CHR 0xBD, CHR 0xD1, CHR 0x84, CHR 0xD0, CHR 0xBE] @
     [CHR 0xD1, CHR 0x80, CHR 0xD0, CHR 0xBC, CHR 0xD0, CHR 0xB0, CHR 0xD1, CHR 0x86] @
     [CHR 0xD0, CHR 0xB8, CHR 0xD1, CHR 0x8F] @ '' '' @ [CHR 0xD0, CHR 0xBE] @ '' '' @
     [CHR 0xD0, CHR 0xB1, CHR 0xD0, CHR 0xBE, CHR 0xD1, CHR 0x82, CHR 0xD0, CHR 0xB5] @
     [CHR 0x0A] @ ''/help - '' @
     [CHR 0xD1, CHR 0x81, CHR 0xD0, CHR 0xBF, CHR 0xD1, CHR 0x80, CHR 0xD0, CHR 0xB0] @
     [CHR 0xD0, CHR 0xB2, CHR 0xD0, CHR 0xBA, CHR 0xD0, CHR 0xB0]"

definition msg_user :: string where
  \<comment> \<open>line 143: user\<close>
  "msg_user =
     [CHR 0xD0, CHR 0x9F, CHR 0xD0, CHR 0xBE, CHR 0xD0, CHR 0xBB, CHR 0xD1, CHR 0x8C] @
     [CHR 0xD0, CHR 0xB7, CHR 0xD0, CHR 0xBE, CHR 0xD0, CHR 0xB2, CHR 0xD0, CHR 0xB0] @
     [CHR 0xD1, CHR 0x82, CHR 0xD0, CHR 0xB5, CHR 0xD0, CHR 0xBB, CHR 0xD1, CHR 0x8C] @ '' ''"

definition msg_user_started :: string where
  \<comment> \<open>line 143: started the bot\<close>
  "msg_user_started =
     '' '' @ [CHR 0xD0, CHR 0xB7, CHR 0xD0, CHR 0xB0, CHR 0xD0, CHR 0xBF, CHR 0xD1, CHR 0x83] @
     [CHR 0xD1, CHR 0x81, CHR 0xD1, CHR 0x82, CHR 0xD0, CHR 0xB8, CHR 0xD0, CHR 0xBB] @ '' '' @
     [CHR 0xD0, CHR 0xB1, CHR 0xD0, CHR 0xBE, CHR 0xD1, CHR 0x82, CHR 0xD0, CHR 0xB0]"

definition txt_fetching :: string where
  \<comment> \<open>line 148: fetching data\<close>
  "txt_fetching =
     [CHR 0xE2, CHR 0x8F, CHR 0xB3] @ '' '' @
     [CHR 0xD0, CHR 0x9F, CHR 0xD0, CHR 0xBE, CHR 0xD0, CHR 0xBB, CHR 0xD1, CHR 0x83] @
     [CHR 0xD1, CHR 0x87, CHR 0xD0, CHR 0xB0, CHR 0xD1, CHR 0x8E] @ '' '' @
     [CHR 0xD0, CHR 0xB4, CHR 0xD0, CHR 0xB0, CHR 0xD0, CHR 0xBD, CHR 0xD0, CHR 0xBD] @
     [CHR 0xD1, CHR 0x8B, CHR 0xD0, CHR 0xB5] @ ''...''"

definition txt_unavailable :: string where
  \<comment> \<open>line 157: could not get the signal, try later\<close>
  "txt_unavailable =
     [CHR 0xE2, CHR 0x9A, CHR 0xA0, CHR 0xEF, CHR 0xB8, CHR 0x8F] @ '' '' @
     [CHR 0xD0, CHR 0x9D, CHR 0xD0, CHR 0xB5] @ '' '' @
     [CHR 0xD1, CHR 0x83, CHR 0xD0, CHR 0xB4, CHR 0xD0, CHR 0xB0, CHR 0xD0, CHR 0xBB] @
     [CHR 0xD0, CHR 0xBE, CHR 0xD1, CHR 0x81, CHR 0xD1, CHR 0x8C] @ '' '' @
     [CHR 0xD0, CHR 0xBF, CHR 0xD0, CHR 0xBE, CHR 0xD0, CHR 0xBB, CHR 0xD1, CHR 0x83] @
     [CHR 0xD1, CHR 0x87, CHR 0xD0, CHR 0xB8, CHR 0xD1, CHR 0x82, CHR 0xD1, CHR 0x8C] @ '' '' @
     [CHR 0xD1, CHR 0x81, CHR 0xD0, CHR 0xB8, CHR 0xD0, CHR 0xB3, CHR 0xD0, CHR 0xBD] @
     [CHR 0xD0, CHR 0xB0, CHR 0xD0, CHR 0xBB] @ ''. '' @
     [CHR 0xD0, CHR 0x9F, CHR 0xD0, CHR 0xBE, CHR 0xD0, CHR 0xBF, CHR 0xD1, CHR 0x80] @
     [CHR 0xD0, CHR 0xBE, CHR 0xD0, CHR 0xB1, CHR 0xD1, CHR 0x83, CHR 0xD0, CHR 0xB9] @
     [CHR 0xD1, CHR 0x82, CHR 0xD0, CHR 0xB5] @ '' '' @
     [CHR 0xD0, CHR 0xBF, CHR 0xD0, CHR 0xBE, CHR 0xD0, CHR 0xB7, CHR 0xD0, CHR 0xB6] @
     [CHR 0xD0, CHR 0xB5] @ ''.''"

definition msg_status_error :: string where
  \<comment> \<open>line 160: error in the /status command:\<close>
  "msg_status_error =
     [CHR 0xD0, CHR 0x9E, CHR 0xD1, CHR 0x88, CHR 0xD0, CHR 0xB8, CHR 0xD0, CHR 0xB1] @
     [CHR 0xD0, CHR 0xBA, CHR 0xD0, CHR 0xB0] @ '' '' @ [CHR 0xD0, CHR 0xB2] @ '' '' @
     [CHR 0xD0, CHR 0xBA, CHR 0xD0, CHR 0xBE, CHR 0xD0, CHR 0xBC, CHR 0xD0, CHR 0xB0] @
     [CHR 0xD0, CHR 0xBD, CHR 0xD0, CHR 0xB4, CHR 0xD0, CHR 0xB5] @ '' /status: ''"

definition txt_error :: string where
  \<comment> \<open>line 163: an error occurred:\<close>
  "txt_error =
     [CHR 0xE2, CHR 0x9D, CHR 0x8C] @ '' '' @
     [CHR 0xD0, CHR 0x9F, CHR 0xD1, CHR 0x80, CHR 0xD0, CHR 0xBE, CHR 0xD0, CHR 0xB8] @
     [CHR 0xD0, CHR 0xB7, CHR 0xD0, CHR 0xBE, CHR 0xD1, CHR 0x88, CHR 0xD0, CHR 0xBB] @
     [CHR 0xD0, CHR 0xB0] @ '' '' @
     [CHR 0xD0, CHR 0xBE, CHR 0xD1, CHR 0x88, CHR 0xD0, CHR 0xB8, CHR 0xD0, CHR 0xB1] @
     [CHR 0xD0, CHR 0xBA, CHR 0xD0, CHR 0xB0] @ '': ''"

definition info_1 :: string where
  \<comment> \<open>lines 169-170: information about the bot, symbol:\<close>
  "info_1 =
     [CHR 0xE2, CHR 0x84, CHR 0xB9, CHR 0xEF, CHR 0xB8, CHR 0x8F] @ '' <b>'' @
     [CHR 0xD0, CHR 0x98, CHR 0xD0, CHR 0xBD, CHR 0xD1, CHR 0x84, CHR 0xD0, CHR 0xBE] @
     [CHR 0xD1, CHR 0x80, CHR 0xD0, CHR 0xBC, CHR 0xD0, CHR 0xB0, CHR 0xD1, CHR 0x86] @
     [CHR 0xD0, CHR 0xB8, CHR 0xD1, CHR 0x8F] @ '' '' @ [CHR 0xD0, CHR 0xBE] @ '' '' @
     [CHR 0xD0, CHR 0xB1, CHR 0xD0, CHR 0xBE, CHR 0xD1, CHR 0x82, CHR 0xD0, CHR 0xB5] @
     ''</b>'' @
     [CHR 0x0A, CHR 0x0A, CHR 0xD0, CHR 0xA1, CHR 0xD0, CHR 0xB8, CHR 0xD0, CHR 0xBC] @
     [CHR 0xD0, CHR 0xB2, CHR 0xD0, CHR 0xBE, CHR 0xD0, CHR 0xBB] @ '': <code>''"

definition info_2 :: string where
  \<comment> \<open>lines 170-171: timeframe:\<close>
  "info_2 =
     ''</code>'' @
     [CHR 0x0A, CHR 0xD0, CHR 0xA2, CHR 0xD0, CHR 0xB0, CHR 0xD0, CHR 0xB9, CHR 0xD0] @
     [CHR 0xBC, CHR 0xD1, CHR 0x84, CHR 0xD1, CHR 0x80, CHR 0xD0, CHR 0xB5, CHR 0xD0] @
     [CHR 0xB9, CHR 0xD0, CHR 0xBC] @ '': <code>''"

definition info_3 :: string where
  \<comment> \<open>lines 171-172: check interval:\<close>
  "info_3 =
     ''</code>'' @
     [CHR 0x0A, CHR 0xD0, CHR 0x98, CHR 0xD0, CHR 0xBD, CHR 0xD1, CHR 0x82, CHR 0xD0] @
     [CHR 0xB5, CHR 0xD1, CHR 0x80, CHR 0xD0, CHR 0xB2, CHR 0xD0, CHR 0xB0, CHR 0xD0] @
     [CHR 0xBB] @ '' '' @
     [CHR 0xD0, CHR 0xBF, CHR 0xD1, CHR 0x80, CHR 0xD0, CHR 0xBE, CHR 0xD0, CHR 0xB2] @
     [CHR 0xD0, CHR 0xB5, CHR 0xD1, CHR 0x80, CHR 0xD0, CHR 0xBA, CHR 0xD0, CHR 0xB8] @
     '': <code>''"

definition info_4 :: string where
  \<comment> \<open>lines 172-173: minutes, status:\<close>
  "info_4 =
     '' '' @ [CHR 0xD0, CHR 0xBC, CHR 0xD0, CHR 0xB8, CHR 0xD0, CHR 0xBD, CHR 0xD1, CHR 0x83] @
     [CHR 0xD1, CHR 0x82] @ ''</code>'' @
     [CHR 0x0A, CHR 0xD0, CHR 0xA1, CHR 0xD1, CHR 0x82, CHR 0xD0, CHR 0xB0, CHR 0xD1] @
     [CHR 0x82, CHR 0xD1, CHR 0x83, CHR 0xD1, CHR 0x81] @ '': ''"

definition txt_active :: string where
  \<comment> \<open>line 173: active\<close>
  "txt_active =
     [CHR 0xF0, CHR 0x9F, CHR 0x9F, CHR 0xA2] @ '' '' @
     [CHR 0xD0, CHR 0x90, CHR 0xD0, CHR 0xBA, CHR 0xD1, CHR 0x82, CHR 0xD0, CHR 0xB8] @
     [CHR 0xD0, CHR 0xB2, CHR 0xD0, CHR 0xB5, CHR 0xD0, CHR 0xBD]"

definition txt_inactive :: string where
  \<comment> \<open>line 173: stopped\<close>
  "txt_inactive =
     [CHR 0xF0, CHR 0x9F, CHR 0x94, CHR 0xB4] @ '' '' @
     [CHR 0xD0, CHR 0x9E, CHR 0xD1, CHR 0x81, CHR 0xD1, CHR 0x82, CHR 0xD0, CHR 0xB0] @
     [CHR 0xD0, CHR 0xBD, CHR 0xD0, CHR 0xBE, CHR 0xD0, CHR 0xB2, CHR 0xD0, CHR 0xBB] @
     [CHR 0xD0, CHR 0xB5, CHR 0xD0, CHR 0xBD]"

definition info_5 :: string where
  \<comment> \<open>lines 173-174: last signal:\<close>
  "info_5 =
     [CHR 0x0A, CHR 0xD0, CHR 0x9F, CHR 0xD0, CHR 0xBE, CHR 0xD1, CHR 0x81, CHR 0xD0] @
     [CHR 0xBB, CHR 0xD0, CHR 0xB5, CHR 0xD0, CHR 0xB4, CHR 0xD0, CHR 0xBD, CHR 0xD0] @
     [CHR 0xB8, CHR 0xD0, CHR 0xB9] @ '' '' @
     [CHR 0xD1, CHR 0x81, CHR 0xD0, CHR 0xB8, CHR 0xD0, CHR 0xB3, CHR 0xD0, CHR 0xBD] @
     [CHR 0xD0, CHR 0xB0, CHR 0xD0, CHR 0xBB] @ '': <code>''"

definition txt_no_data :: string where
  \<comment> \<open>line 174: no data\<close>
  "txt_no_data =
     [CHR 0xD0, CHR 0x9D, CHR 0xD0, CHR 0xB5, CHR 0xD1, CHR 0x82] @ '' '' @
     [CHR 0xD0, CHR 0xB4, CHR 0xD0, CHR 0xB0, CHR 0xD0, CHR 0xBD, CHR 0xD0, CHR 0xBD] @
     [CHR 0xD1, CHR 0x8B, CHR 0xD1, CHR 0x85]"

definition info_6 :: string where
  \<comment> \<open>line 174\<close>
  "info_6 =
     ''</code>''"

definition help_text :: string where
  \<comment> \<open>lines 180-193: the help text\<close>
  "help_text =
     [CHR 0xF0, CHR 0x9F, CHR 0x93, CHR 0x96] @ '' <b>'' @
     [CHR 0xD0, CHR 0xA1, CHR 0xD0, CHR 0xBF, CHR 0xD1, CHR 0x80, CHR 0xD0, CHR 0xB0] @
     [CHR 0xD0, CHR 0xB2, CHR 0xD0, CHR 0xBA, CHR 0xD0, CHR 0xB0] @ ''</b>'' @
     [CHR 0x0A, CHR 0x0A, CHR 0xD0, CHR 0x91, CHR 0xD0, CHR 0xBE, CHR 0xD1, CHR 0x82] @ '' '' @
     [CHR 0xD0, CHR 0xB0, CHR 0xD0, CHR 0xBD, CHR 0xD0, CHR 0xB0, CHR 0xD0, CHR 0xBB] @
     [CHR 0xD0, CHR 0xB8, CHR 0xD0, CHR 0xB7, CHR 0xD0, CHR 0xB8, CHR 0xD1, CHR 0x80] @
     [CHR 0xD1, CHR 0x83, CHR 0xD0, CHR 0xB5, CHR 0xD1, CHR 0x82] @ '' '' @
     [CHR 0xD1, CHR 0x80, CHR 0xD1, CHR 0x8B, CHR 0xD0, CHR 0xBD, CHR 0xD0, CHR 0xBE] @
     [CHR 0xD0, CHR 0xBA] @ '' '' @
     [CHR 0xD0, CHR 0xBA, CHR 0xD1, CHR 0x80, CHR 0xD0, CHR 0xB8, CHR 0xD0, CHR 0xBF] @
     [CHR 0xD1, CHR 0x82, CHR 0xD0, CHR 0xBE, CHR 0xD0, CHR 0xB2, CHR 0xD0, CHR 0xB0] @
     [CHR 0xD0, CHR 0xBB, CHR 0xD1, CHR 0x8E, CHR 0xD1, CHR 0x82] @ '' '' @
     [CHR 0xD0, CHR 0xB8, CHR 0xD1, CHR 0x81, CHR 0xD0, CHR 0xBF, CHR 0xD0, CHR 0xBE] @
     [CHR 0xD0, CHR 0xBB, CHR 0xD1, CHR 0x8C, CHR 0xD0, CHR 0xB7, CHR 0xD1, CHR 0x83] @
     [CHR 0xD1, CHR 0x8F] @ '' '' @
     [CHR 0xD0, CHR 0xB8, CHR 0xD0, CHR 0xBD, CHR 0xD0, CHR 0xB4, CHR 0xD0, CHR 0xB8] @
     [CHR 0xD0, CHR 0xBA, CHR 0xD0, CHR 0xB0, CHR 0xD1, CHR 0x82, CHR 0xD0, CHR 0xBE] @
     [CHR 0xD1, CHR 0x80] @ '' SuperTrend '' @ [CHR 0xD0, CHR 0xB8] @ '' '' @
     [CHR 0xD0, CHR 0xBE, CHR 0xD1, CHR 0x82, CHR 0xD0, CHR 0xBF, CHR 0xD1, CHR 0x80] @
     [CHR 0xD0, CHR 0xB0, CHR 0xD0, CHR 0xB2, CHR 0xD0, CHR 0xBB, CHR 0xD1, CHR 0x8F] @
     [CHR 0xD0, CHR 0xB5, CHR 0xD1, CHR 0x82] @ '' '' @
     [CHR 0xD1, CHR 0x81, CHR 0xD0, CHR 0xB8, CHR 0xD0, CHR 0xB3, CHR 0xD0, CHR 0xBD] @
     [CHR 0xD0, CHR 0xB0, CHR 0xD0, CHR 0xBB, CHR 0xD1, CHR 0x8B] @ '' '' @
     [CHR 0xD0, CHR 0xBD, CHR 0xD0, CHR 0xB0] @ '' '' @
     [CHR 0xD0, CHR 0xBF, CHR 0xD0, CHR 0xBE, CHR 0xD0, CHR 0xBA, CHR 0xD1, CHR 0x83] @
     [CHR 0xD0, CHR 0xBF, CHR 0xD0, CHR 0xBA, CHR 0xD1, CHR 0x83] @ ''/'' @
     [CHR 0xD0, CHR 0xBF, CHR 0xD1, CHR 0x80, CHR 0xD0, CHR 0xBE, CHR 0xD0, CHR 0xB4] @
     [CHR 0xD0, CHR 0xB0, CHR 0xD0, CHR 0xB6, CHR 0xD1, CHR 0x83] @ ''.'' @
     [CHR 0x0A, CHR 0x0A] @ ''<b>'' @
     [CHR 0xD0, CHR 0x9A, CHR 0xD0, CHR 0xB0, CHR 0xD0, CHR 0xBA] @ '' '' @
     [CHR 0xD1, CHR 0x8D, CHR 0xD1, CHR 0x82, CHR 0xD0, CHR 0xBE] @ '' '' @
     [CHR 0xD1, CHR 0x80, CHR 0xD0, CHR 0xB0, CHR 0xD0, CHR 0xB1, CHR 0xD0, CHR 0xBE] @
     [CHR 0xD1, CHR 0x82, CHR 0xD0, CHR 0xB0, CHR 0xD0, CHR 0xB5, CHR 0xD1, CHR 0x82] @
     '':</b>'' @ [CHR 0x0A, CHR 0xE2, CHR 0x80, CHR 0xA2] @ '' '' @
     [CHR 0xD0, CHR 0x91, CHR 0xD0, CHR 0xBE, CHR 0xD1, CHR 0x82] @ '' '' @
     [CHR 0xD0, CHR 0xBF, CHR 0xD1, CHR 0x80, CHR 0xD0, CHR 0xBE, CHR 0xD0, CHR 0xB2] @
     [CHR 0xD0, CHR 0xB5, CHR 0xD1, CHR 0x80, CHR 0xD1, CHR 0x8F, CHR 0xD0, CHR 0xB5] @
     [CHR 0xD1, CHR 0x82] @ '' '' @
     [CHR 0xD1, CHR 0x80, CHR 0xD1, CHR 0x8B, CHR 0xD0, CHR 0xBD, CHR 0xD0, CHR 0xBE] @
     [CHR 0xD0, CHR 0xBA] @ '' '' @
     [CHR 0xD0, CHR 0xBA, CHR 0xD0, CHR 0xB0, CHR 0xD0, CHR 0xB6, CHR 0xD0, CHR 0xB4] @
     [CHR 0xD1, CHR 0x8B, CHR 0xD0, CHR 0xB5] @ '' 15 '' @
     [CHR 0xD0, CHR 0xBC, CHR 0xD0, CHR 0xB8, CHR 0xD0, CHR 0xBD, CHR 0xD1, CHR 0x83] @
     [CHR 0xD1, CHR 0x82, CHR 0x0A, CHR 0xE2, CHR 0x80, CHR 0xA2] @ '' '' @
     [CHR 0xD0, CHR 0x9F, CHR 0xD1, CHR 0x80, CHR 0xD0, CHR 0xB8] @ '' '' @
     [CHR 0xD0, CHR 0xB8, CHR 0xD0, CHR 0xB7, CHR 0xD0, CHR 0xBC, CHR 0xD0, CHR 0xB5] @
     [CHR 0xD0, CHR 0xBD, CHR 0xD0, CHR 0xB5, CHR 0xD0, CHR 0xBD, CHR 0xD0, CHR 0xB8] @
     [CHR 0xD0, CHR 0xB8] @ '' '' @
     [CHR 0xD1, CHR 0x81, CHR 0xD0, CHR 0xB8, CHR 0xD0, CHR 0xB3, CHR 0xD0, CHR 0xBD] @
     [CHR 0xD0, CHR 0xB0, CHR 0xD0, CHR 0xBB, CHR 0xD0, CHR 0xB0] @ '' '' @
     [CHR 0xD0, CHR 0xB2, CHR 0xD1, CHR 0x8B] @ '' '' @
     [CHR 0xD0, CHR 0xBF, CHR 0xD0, CHR 0xBE, CHR 0xD0, CHR 0xBB, CHR 0xD1, CHR 0x83] @
     [CHR 0xD1, CHR 0x87, CHR 0xD0, CHR 0xB0, CHR 0xD0, CHR 0xB5, CHR 0xD1, CHR 0x82] @
     [CHR 0xD0, CHR 0xB5] @ '' '' @
     [CHR 0xD1, CHR 0x83, CHR 0xD0, CHR 0xB2, CHR 0xD0, CHR 0xB5, CHR 0xD0, CHR 0xB4] @
     [CHR 0xD0, CHR 0xBE, CHR 0xD0, CHR 0xBC, CHR 0xD0, CHR 0xBB, CHR 0xD0, CHR 0xB5] @
     [CHR 0xD0, CHR 0xBD, CHR 0xD0, CHR 0xB8, CHR 0xD0, CHR 0xB5, CHR 0x0A, CHR 0xE2] @
     [CHR 0x80, CHR 0xA2] @ '' '' @ [CHR 0xF0, CHR 0x9F, CHR 0x9F, CHR 0xA2] @ '' BUY - '' @
     [CHR 0xD1, CHR 0x81, CHR 0xD0, CHR 0xB8, CHR 0xD0, CHR 0xB3, CHR 0xD0, CHR 0xBD] @
     [CHR 0xD0, CHR 0xB0, CHR 0xD0, CHR 0xBB] @ '' '' @
     [CHR 0xD0, CHR 0xBD, CHR 0xD0, CHR 0xB0] @ '' '' @
     [CHR 0xD0, CHR 0xBF, CHR 0xD0, CHR 0xBE, CHR 0xD0, CHR 0xBA, CHR 0xD1, CHR 0x83] @
     [CHR 0xD0, CHR 0xBF, CHR 0xD0, CHR 0xBA, CHR 0xD1, CHR 0x83, CHR 0x0A, CHR 0xE2] @
     [CHR 0x80, CHR 0xA2] @ '' '' @ [CHR 0xF0, CHR 0x9F, CHR 0x94, CHR 0xB4] @ '' SELL - '' @
     [CHR 0xD1, CHR 0x81, CHR 0xD0, CHR 0xB8, CHR 0xD0, CHR 0xB3, CHR 0xD0, CHR 0xBD] @
     [CHR 0xD0, CHR 0xB0, CHR 0xD0, CHR 0xBB] @ '' '' @
     [CHR 0xD0, CHR 0xBD, CHR 0xD0, CHR 0xB0] @ '' '' @
     [CHR 0xD0, CHR 0xBF, CHR 0xD1, CHR 0x80, CHR 0xD0, CHR 0xBE, CHR 0xD0, CHR 0xB4] @
     [CHR 0xD0, CHR 0xB0, CHR 0xD0, CHR 0xB6, CHR 0xD1, CHR 0x83, CHR 0x0A, CHR 0x0A] @
     ''<b>'' @
     [CHR 0xD0, CHR 0x9A, CHR 0xD0, CHR 0xBE, CHR 0xD0, CHR 0xBC, CHR 0xD0, CHR 0xB0] @
     [CHR 0xD0, CHR 0xBD, CHR 0xD0, CHR 0xB4, CHR 0xD1, CHR 0x8B] @ '':</b>'' @ [CHR 0x0A] @
     ''/status - '' @
     [CHR 0xD1, CHR 0x83, CHR 0xD0, CHR 0xB7, CHR 0xD0, CHR 0xBD, CHR 0xD0, CHR 0xB0] @
     [CHR 0xD1, CHR 0x82, CHR 0xD1, CHR 0x8C] @ '' '' @
     [CHR 0xD1, CHR 0x82, CHR 0xD0, CHR 0xB5, CHR 0xD0, CHR 0xBA, CHR 0xD1, CHR 0x83] @
     [CHR 0xD1, CHR 0x89, CHR 0xD0, CHR 0xB8, CHR 0xD0, CHR 0xB9] @ '' '' @
     [CHR 0xD1, CHR 0x81, CHR 0xD0, CHR 0xB8, CHR 0xD0, CHR 0xB3, CHR 0xD0, CHR 0xBD] @
     [CHR 0xD0, CHR 0xB0, CHR 0xD0, CHR 0xBB, CHR 0x0A] @ ''/info - '' @
     [CHR 0xD0, CHR 0xB8, CHR 0xD0, CHR 0xBD, CHR 0xD1, CHR 0x84, CHR 0xD0, CHR 0xBE] @
     [CHR 0xD1, CHR 0x80, CHR 0xD0, CHR 0xBC, CHR 0xD0, CHR 0xB0, CHR 0xD1, CHR 0x86] @
     [CHR 0xD0, CHR 0xB8, CHR 0xD1, CHR 0x8F] @ '' '' @ [CHR 0xD0, CHR 0xBE] @ '' '' @
     [CHR 0xD0, CHR 0xB1, CHR 0xD0, CHR 0xBE, CHR 0xD1, CHR 0x82, CHR 0xD0, CHR 0xB5] @
     [CHR 0x0A] @ ''/help - '' @ [CHR 0xD1, CHR 0x8D, CHR 0xD1, CHR 0x82, CHR 0xD0, CHR 0xB0] @
     '' '' @ [CHR 0xD1, CHR 0x81, CHR 0xD0, CHR 0xBF, CHR 0xD1, CHR 0x80, CHR 0xD0, CHR 0xB0] @
     [CHR 0xD0, CHR 0xB2, CHR 0xD0, CHR 0xBA, CHR 0xD0, CHR 0xB0]"

definition msg_launching :: string where
  \<comment> \<open>line 199: launching the bot\<close>
  "msg_launching =
     [CHR 0xD0, CHR 0x97, CHR 0xD0, CHR 0xB0, CHR 0xD0, CHR 0xBF, CHR 0xD1, CHR 0x83] @
     [CHR 0xD1, CHR 0x81, CHR 0xD0, CHR 0xBA] @ '' '' @
     [CHR 0xD0, CHR 0xB1, CHR 0xD0, CHR 0xBE, CHR 0xD1, CHR 0x82, CHR 0xD0, CHR 0xB0] @ ''...''"

definition txt_launched_1 :: string where
  \<comment> \<open>lines 208-209: bot launched, tracking\<close>
  "txt_launched_1 =
     [CHR 0xE2, CHR 0x9C, CHR 0x85] @ '' <b>'' @
     [CHR 0xD0, CHR 0x91, CHR 0xD0, CHR 0xBE, CHR 0xD1, CHR 0x82] @ '' '' @
     [CHR 0xD0, CHR 0xB7, CHR 0xD0, CHR 0xB0, CHR 0xD0, CHR 0xBF, CHR 0xD1, CHR 0x83] @
     [CHR 0xD1, CHR 0x89, CHR 0xD0, CHR 0xB5, CHR 0xD0, CHR 0xBD] @ ''!</b>'' @
     [CHR 0x0A, CHR 0xD0, CHR 0x9E, CHR 0xD1, CHR 0x82, CHR 0xD1, CHR 0x81, CHR 0xD0] @
     [CHR 0xBB, CHR 0xD0, CHR 0xB5, CHR 0xD0, CHR 0xB6, CHR 0xD0, CHR 0xB8, CHR 0xD0] @
     [CHR 0xB2, CHR 0xD0, CHR 0xB0, CHR 0xD1, CHR 0x8E] @ '' ''"

definition txt_launched_2 :: string where
  \<comment> \<open>line 209: on timeframe\<close>
  "txt_launched_2 =
     '' '' @ [CHR 0xD0, CHR 0xBD, CHR 0xD0, CHR 0xB0] @ '' '' @
     [CHR 0xD1, CHR 0x82, CHR 0xD0, CHR 0xB0, CHR 0xD0, CHR 0xB9, CHR 0xD0, CHR 0xBC] @
     [CHR 0xD1, CHR 0x84, CHR 0xD1, CHR 0x80, CHR 0xD0, CHR 0xB5, CHR 0xD0, CHR 0xB9] @
     [CHR 0xD0, CHR 0xBC, CHR 0xD0, CHR 0xB5] @ '' ''"

definition msg_launched :: string where
  \<comment> \<open>line 213: bot launched successfully\<close>
  "msg_launched =
     [CHR 0xD0, CHR 0x91, CHR 0xD0, CHR 0xBE, CHR 0xD1, CHR 0x82] @ '' '' @
     [CHR 0xD1, CHR 0x83, CHR 0xD1, CHR 0x81, CHR 0xD0, CHR 0xBF, CHR 0xD0, CHR 0xB5] @
     [CHR 0xD1, CHR 0x88, CHR 0xD0, CHR 0xBD, CHR 0xD0, CHR 0xBE] @ '' '' @
     [CHR 0xD0, CHR 0xB7, CHR 0xD0, CHR 0xB0, CHR 0xD0, CHR 0xBF, CHR 0xD1, CHR 0x83] @
     [CHR 0xD1, CHR 0x89, CHR 0xD0, CHR 0xB5, CHR 0xD0, CHR 0xBD]"

definition msg_interrupt :: string where
  \<comment> \<open>line 217: stop signal received\<close>
  "msg_interrupt =
     [CHR 0xD0, CHR 0x9F, CHR 0xD0, CHR 0xBE, CHR 0xD0, CHR 0xBB, CHR 0xD1, CHR 0x83] @
     [CHR 0xD1, CHR 0x87, CHR 0xD0, CHR 0xB5, CHR 0xD0, CHR 0xBD] @ '' '' @
     [CHR 0xD1, CHR 0x81, CHR 0xD0, CHR 0xB8, CHR 0xD0, CHR 0xB3, CHR 0xD0, CHR 0xBD] @
     [CHR 0xD0, CHR 0xB0, CHR 0xD0, CHR 0xBB] @ '' '' @
     [CHR 0xD0, CHR 0xBE, CHR 0xD1, CHR 0x81, CHR 0xD1, CHR 0x82, CHR 0xD0, CHR 0xB0] @
     [CHR 0xD0, CHR 0xBD, CHR 0xD0, CHR 0xBE, CHR 0xD0, CHR 0xB2, CHR 0xD0, CHR 0xBA] @
     [CHR 0xD0, CHR 0xB8]"

definition txt_bot_stopped :: string where
  \<comment> \<open>line 219: bot stopped\<close>
  "txt_bot_stopped =
     [CHR 0xF0, CHR 0x9F, CHR 0x9B, CHR 0x91] @ '' '' @
     [CHR 0xD0, CHR 0x91, CHR 0xD0, CHR 0xBE, CHR 0xD1, CHR 0x82] @ '' '' @
     [CHR 0xD0, CHR 0xBE, CHR 0xD1, CHR 0x81, CHR 0xD1, CHR 0x82, CHR 0xD0, CHR 0xB0] @
     [CHR 0xD0, CHR 0xBD, CHR 0xD0, CHR 0xBE, CHR 0xD0, CHR 0xB2, CHR 0xD0, CHR 0xBB] @
     [CHR 0xD0, CHR 0xB5, CHR 0xD0, CHR 0xBD]"

definition msg_critical :: string where
  \<comment> \<open>line 221: critical error:\<close>
  "msg_critical =
     [CHR 0xD0, CHR 0x9A, CHR 0xD1, CHR 0x80, CHR 0xD0, CHR 0xB8, CHR 0xD1, CHR 0x82] @
     [CHR 0xD0, CHR 0xB8, CHR 0xD1, CHR 0x87, CHR 0xD0, CHR 0xB5, CHR 0xD1, CHR 0x81] @
     [CHR 0xD0, CHR 0xBA, CHR 0xD0, CHR 0xB0, CHR 0xD1, CHR 0x8F] @ '' '' @
     [CHR 0xD0, CHR 0xBE, CHR 0xD1, CHR 0x88, CHR 0xD0, CHR 0xB8, CHR 0xD0, CHR 0xB1] @
     [CHR 0xD0, CHR 0xBA, CHR 0xD0, CHR 0xB0] @ '': ''"

definition txt_critical :: string where
  \<comment> \<open>line 223: critical error:\<close>
  "txt_critical =
     [CHR 0xE2, CHR 0x9D, CHR 0x8C] @ '' '' @
     [CHR 0xD0, CHR 0x9A, CHR 0xD1, CHR 0x80, CHR 0xD0, CHR 0xB8, CHR 0xD1, CHR 0x82] @
     [CHR 0xD0, CHR 0xB8, CHR 0xD1, CHR 0x87, CHR 0xD0, CHR 0xB5, CHR 0xD1, CHR 0x81] @
     [CHR 0xD0, CHR 0xBA, CHR 0xD0, CHR 0xB0, CHR 0xD1, CHR 0x8F] @ '' '' @
     [CHR 0xD0, CHR 0xBE, CHR 0xD1, CHR 0x88, CHR 0xD0, CHR 0xB8, CHR 0xD0, CHR 0xB1] @
     [CHR 0xD0, CHR 0xBA, CHR 0xD0, CHR 0xB0] @ '': ''"

subsection \<open>Data\<close>

text \<open>
  One candle as \<^verbatim>\<open>fetch_ohlcv\<close> returns it, which is also one row of the frame
  \<^verbatim>\<open>df\<close> (columns timestamp, open, high, low, close, volume).
\<close>

record bar =
  bar_timestamp :: int
  bar_open :: pyfloat
  bar_high :: pyfloat
  bar_low :: pyfloat
  bar_close :: pyfloat
  bar_volume :: pyfloat

text \<open>
  One row of the frame \<^verbatim>\<open>ta.supertrend\<close> returns for length 10 and multiplier 3.0:
  the columns \<^verbatim>\<open>SUPERT_10_3.0\<close>, \<^verbatim>\<open>SUPERTd_10_3.0\<close>, \<^verbatim>\<open>SUPERTl_10_3.0\<close> and
  \<^verbatim>\<open>SUPERTs_10_3.0\<close>. The program reads the second one only.
\<close>

record st_row =
  SUPERT :: pyfloat
  SUPERTd :: pyfloat
  SUPERTl :: pyfloat
  SUPERTs :: pyfloat

text \<open>The dictionary \<^verbatim>\<open>signal_data\<close> (lines 70-74) and the object \<^verbatim>\<open>TradingBot\<close>.\<close>

record signal_data =
  direction :: string
  price :: pyfloat
  timestamp :: string

record TradingBot =
  last_signal :: "signal_data option"
  is_running :: bool

definition init :: TradingBot where
  \<comment> \<open>\<^verbatim>\<open>TradingBot.__init__\<close>, lines 37-39\<close>
  "init = \<lparr>last_signal = None, is_running = False\<rparr>"

text \<open>
  An incoming Telegram message: the chat it came from and the user who sent it. The
  handlers are registered for messages of users, which carry their sender.
\<close>

record message =
  chat_id :: int
  from_user_id :: int

subsection \<open>Effects and the outside world\<close>

datatype level = INFO | WARNING | ERROR | CRITICAL

datatype parse_mode = HTML | Plain

text \<open>
  The destination of \<^verbatim>\<open>bot.send_message\<close>: the module's \<^verbatim>\<open>CHAT_ID\<close> (whatever
  \<^verbatim>\<open>os.getenv\<close> returned) or the \<^verbatim>\<open>chat.id\<close> of a message.
\<close>

datatype chat = Chat_env "string option" | Chat_id int

text \<open>A call of the Telegram client returns (\<open>Delivered\<close>) or raises (\<open>Failed\<close>).\<close>

datatype outcome = Delivered | Failed

datatype effect =
    Log level string
  | Send_message chat string parse_mode outcome
  | Reply_to message string parse_mode outcome
  | Sleep nat
  | Thread_start
  | Infinity_polling

datatype poll_outcome = Poll_returns | Poll_KeyboardInterrupt | Poll_raises py_exception

text \<open>
  What the libraries answer during one run of a function (one loop iteration, one
  handler call, one run of the main block):
  \<^item> \<open>fetch_ohlcv\<close>: \<^verbatim>\<open>exchange.fetch_ohlcv(symbol, timeframe, limit)\<close> raises or
    returns candles;
  \<^item> \<open>supertrend\<close>: \<^verbatim>\<open>ta.supertrend(high, low, close, length, multiplier)\<close> raises,
    returns \<^verbatim>\<open>None\<close> or returns a frame (its rows);
  \<^item> \<open>now\<close>: \<^verbatim>\<open>datetime.now().strftime('%Y-%m-%d %H:%M:%S')\<close>;
  \<^item> \<open>send_raises k\<close>: what the \<open>k\<close>-th call of \<^verbatim>\<open>bot.send_message\<close> or
    \<^verbatim>\<open>bot.reply_to\<close> made during the run raises, counting from 0 (\<open>None\<close>: it returns);
  \<^item> \<open>stop_called\<close>: the main thread calls \<^verbatim>\<open>stop()\<close> while the loop iteration runs
    or sleeps;
  \<^item> \<open>polling\<close>: how \<^verbatim>\<open>bot.infinity_polling\<close> ends.
\<close>

record world =
  fetch_ohlcv :: "string \<Rightarrow> string \<Rightarrow> nat \<Rightarrow> py_exception + bar list"
  supertrend ::
    "pyfloat list \<Rightarrow> pyfloat list \<Rightarrow> pyfloat list \<Rightarrow> nat \<Rightarrow> pyfloat \<Rightarrow> py_exception + st_row list option"
  now :: string
  send_raises :: "nat \<Rightarrow> py_exception option"
  stop_called :: bool
  polling :: poll_outcome

text \<open>
  What is fixed for the life of the process: the environment, and Python's rendering of
  a float by \<^verbatim>\<open>{x:.2f}\<close> and by \<^verbatim>\<open>{x}\<close>. Float formatting is not modelled; the
  two functions are parameters. So is what the constructors of the two clients do:
  \<open>telebot_TeleBot t\<close> is what \<^verbatim>\<open>telebot.TeleBot(t)\<close> raises (the library may refuse a
  token by its form) and \<open>ccxt_binance\<close> what \<^verbatim>\<open>ccxt.binance({...})\<close> raises; \<open>None\<close>
  says that the constructor returns.
\<close>

record runtime =
  getenv :: "string \<Rightarrow> string option"
  fmt_2f :: "pyfloat \<Rightarrow> string"
  str_float :: "pyfloat \<Rightarrow> string"
  telebot_TeleBot :: "string option \<Rightarrow> py_exception option"
  ccxt_binance :: "py_exception option"

definition TOKEN :: "runtime \<Rightarrow> string option" where
  \<comment> \<open>line 19\<close>
  "TOKEN rt = getenv rt ''TELEGRAM_TOKEN''"

definition CHAT_ID :: "runtime \<Rightarrow> string option" where
  \<comment> \<open>line 20\<close>
  "CHAT_ID rt = getenv rt ''TELEGRAM_CHAT_ID''"

subsection \<open>The signal evaluator\<close>

text \<open>
  The \<^verbatim>\<open>try\<close> block of \<^verbatim>\<open>get_signal\<close>, lines 44-77. \<^verbatim>\<open>df.empty\<close> holds when there
  is no candle, \<^verbatim>\<open>supertrend.empty\<close> when the frame has no row; \<^verbatim>\<open>iloc[-1]\<close> is the
  last row, read only where there is one.
\<close>

definition get_signal_try ::
  "runtime \<Rightarrow> world \<Rightarrow> (py_exception + signal_data option) \<times> effect list" where
  "get_signal_try rt w =
     (case fetch_ohlcv w SYMBOL TIMEFRAME 100 of
        Inl e \<Rightarrow> (Inl e, [])
      | Inr bars \<Rightarrow>
          if bars = [] then (Inr None, [Log WARNING msg_empty_data])
          else
            (case supertrend w (map bar_high bars) (map bar_low bars) (map bar_close bars)
                    10 (Finite 3) of
               Inl e \<Rightarrow> (Inl e, [])
             | Inr None \<Rightarrow> (Inr None, [Log WARNING msg_no_supertrend])
             | Inr (Some st) \<Rightarrow>
                 if st = [] then (Inr None, [Log WARNING msg_no_supertrend])
                 else
                   let last_direction = SUPERTd (last st);
                       current_price = bar_close (last bars);
                       signal_data =
                         \<lparr>direction = (if py_eq last_direction (Finite 1) then BUY else SELL),
                          price = current_price,
                          timestamp = now w\<rparr>
                   in (Inr (Some signal_data),
                       [Log INFO (msg_signal @ direction signal_data @ msg_at_price
                                  @ str_float rt current_price)])))"

text \<open>The three \<^verbatim>\<open>except\<close> clauses, lines 79-87, in the order of the source.\<close>

fun get_signal_except :: "py_exception \<Rightarrow> (py_exception + signal_data option) \<times> effect list" where
  "get_signal_except (NetworkError m) = (Inr None, [Log ERROR (msg_network_error @ m)])"
| "get_signal_except (ExchangeError m) = (Inr None, [Log ERROR (msg_exchange_error @ m)])"
| "get_signal_except e = (Inr None, [Log ERROR (msg_unexpected_error @ str_exc e)])"

definition get_signal ::
  "runtime \<Rightarrow> world \<Rightarrow> (py_exception + signal_data option) \<times> effect list" where
  "get_signal rt w =
     (case get_signal_try rt w of
        (Inr r, es) \<Rightarrow> (Inr r, es)
      | (Inl e, es) \<Rightarrow> (case get_signal_except e of (r, es') \<Rightarrow> (r, es @ es')))"

definition format_signal_message :: "runtime \<Rightarrow> signal_data \<Rightarrow> string" where
  \<comment> \<open>lines 89-96\<close>
  "format_signal_message rt signal_data =
     fmt_head @ SYMBOL @ fmt_signal @ direction signal_data @ fmt_price
     @ fmt_2f rt (price signal_data) @ fmt_time @ timestamp signal_data"

subsection \<open>The polling loop\<close>

text \<open>The condition of line 109: nothing is stored, or the direction differs.\<close>

definition direction_changed :: "TradingBot \<Rightarrow> signal_data \<Rightarrow> bool" where
  "direction_changed self current_signal =
     (case last_signal self of
        None \<Rightarrow> True
      | Some stored \<Rightarrow> direction current_signal \<noteq> direction stored)"

definition new_signal_message :: "runtime \<Rightarrow> signal_data \<Rightarrow> effect" where
  \<comment> \<open>the call of lines 110-111, when it returns\<close>
  "new_signal_message rt current_signal =
     Send_message (Chat_env (CHAT_ID rt))
       (new_signal_head @ format_signal_message rt current_signal) HTML Delivered"

text \<open>
  The \<^verbatim>\<open>try\<close> block of one iteration, lines 105-115. It returns how the block ends
  (\<open>Inl\<close>: with an exception), its effects and the object. A signal dictionary has three
  keys, so \<^verbatim>\<open>if current_signal\<close> asks whether it is not \<^verbatim>\<open>None\<close>.
\<close>

definition auto_check_try ::
  "runtime \<Rightarrow> world \<Rightarrow> TradingBot \<Rightarrow> (py_exception + unit) \<times> effect list \<times> TradingBot" where
  "auto_check_try rt w self =
     (case get_signal rt w of
        (Inl e, es) \<Rightarrow> (Inl e, es, self)
      | (Inr None, es) \<Rightarrow> (Inr (), es @ [Sleep CHECK_INTERVAL], self)
      | (Inr (Some current_signal), es) \<Rightarrow>
          if direction_changed self current_signal then
            (case send_raises w 0 of
               Some e \<Rightarrow>
                 (Inl e,
                  es @ [Send_message (Chat_env (CHAT_ID rt))
                          (new_signal_head @ format_signal_message rt current_signal) HTML Failed],
                  self)
             | None \<Rightarrow>
                 (Inr (),
                  es @ [new_signal_message rt current_signal,
                        Log INFO (msg_notified @ direction current_signal),
                        Sleep CHECK_INTERVAL],
                  self\<lparr>last_signal := Some current_signal\<rparr>))
          else (Inr (), es @ [Sleep CHECK_INTERVAL], self))"

text \<open>One iteration: the \<^verbatim>\<open>try\<close> block and the \<^verbatim>\<open>except Exception\<close> of lines 117-119.\<close>

definition auto_check_iteration :: "runtime \<Rightarrow> world \<Rightarrow> TradingBot \<Rightarrow> effect list \<times> TradingBot" where
  "auto_check_iteration rt w self =
     (case auto_check_try rt w self of
        (Inr u, es, self') \<Rightarrow> (es, self')
      | (Inl e, es, self') \<Rightarrow> (es @ [Log ERROR (msg_loop_error @ str_exc e), Sleep 60], self'))"

definition stop :: "TradingBot \<Rightarrow> effect list \<times> TradingBot" where
  \<comment> \<open>lines 121-124\<close>
  "stop self = ([Log INFO msg_stopped], self\<lparr>is_running := False\<rparr>)"

text \<open>
  The \<^verbatim>\<open>while self.is_running\<close> loop of line 103. The loop has no bound of its own:
  the list gives one world per iteration, and the result is the run up to the end of the
  list, or up to the first test of the flag that fails. A \<^verbatim>\<open>stop()\<close> of the main thread
  during an iteration takes effect at the next test; its log entry is put after the
  iteration's effects.
\<close>

fun auto_check_loop :: "runtime \<Rightarrow> world list \<Rightarrow> TradingBot \<Rightarrow> effect list \<times> TradingBot" where
  "auto_check_loop rt [] self = ([], self)"
| "auto_check_loop rt (w # ws) self =
     (if is_running self then
        (case auto_check_iteration rt w self of
           (es, self1) \<Rightarrow>
             (case (if stop_called w then stop self1 else ([], self1)) of
                (es_stop, self2) \<Rightarrow>
                  (case auto_check_loop rt ws self2 of
                     (es_rest, self3) \<Rightarrow> (es @ es_stop @ es_rest, self3))))
      else ([], self))"

definition auto_check :: "runtime \<Rightarrow> world list \<Rightarrow> TradingBot \<Rightarrow> effect list \<times> TradingBot" where
  \<comment> \<open>lines 98-119\<close>
  "auto_check rt ws self =
     (case auto_check_loop rt ws (self\<lparr>is_running := True\<rparr>) of
        (es, self') \<Rightarrow> (Log INFO msg_started # es, self'))"

text \<open>Reading a run: the calls of \<^verbatim>\<open>bot.send_message\<close> and the sleeps, in order.\<close>

fun is_send :: "effect \<Rightarrow> bool" where
  "is_send (Send_message c t m out) = True"
| "is_send e = False"

definition sends :: "effect list \<Rightarrow> effect list" where
  "sends es = filter is_send es"

fun sleeps :: "effect list \<Rightarrow> nat list" where
  "sleeps [] = []"
| "sleeps (Sleep n # es) = n # sleeps es"
| "sleeps (e # es) = sleeps es"

text \<open>What an evaluation yields: a signal, or \<^verbatim>\<open>None\<close>.\<close>

definition evaluated :: "runtime \<Rightarrow> world \<Rightarrow> signal_data option" where
  "evaluated rt w = (case fst (get_signal rt w) of Inr r \<Rightarrow> r | Inl e \<Rightarrow> None)"

text \<open>
  The rule of the specification, in its words: fed a sequence of evaluations, announce the
  first signal ever, announce a signal whose direction differs from that of the signal
  evaluated before it, and announce nothing when the direction repeats or there is no
  signal. \<open>prev\<close> is the direction of the last signal evaluated so far.
\<close>

fun spec_announcements :: "string option \<Rightarrow> signal_data option list \<Rightarrow> signal_data list" where
  "spec_announcements prev [] = []"
| "spec_announcements prev (None # xs) = spec_announcements prev xs"
| "spec_announcements prev (Some s # xs) =
     (if prev = Some (direction s) then spec_announcements prev xs
      else s # spec_announcements (Some (direction s)) xs)"

subsection \<open>The command handlers\<close>

text \<open>
  The \<open>k\<close>-th call of the Telegram client during a run: it raises what the world says,
  or returns. Either way the call is an effect of the run.
\<close>

definition send_message ::
  "world \<Rightarrow> nat \<Rightarrow> chat \<Rightarrow> string \<Rightarrow> parse_mode \<Rightarrow> (py_exception + unit) \<times> effect list" where
  "send_message w k c t m =
     (case send_raises w k of
        Some e \<Rightarrow> (Inl e, [Send_message c t m Failed])
      | None \<Rightarrow> (Inr (), [Send_message c t m Delivered]))"

definition reply_to ::
  "world \<Rightarrow> nat \<Rightarrow> message \<Rightarrow> string \<Rightarrow> parse_mode \<Rightarrow> (py_exception + unit) \<times> effect list" where
  "reply_to w k msg t m =
     (case send_raises w k of
        Some e \<Rightarrow> (Inl e, [Reply_to msg t m Failed])
      | None \<Rightarrow> (Inr (), [Reply_to msg t m Delivered]))"

fun is_call :: "effect \<Rightarrow> bool" where
  "is_call (Send_message c t m out) = True"
| "is_call (Reply_to msg t m out) = True"
| "is_call e = False"

definition calls :: "effect list \<Rightarrow> nat" where
  \<comment> \<open>how many calls of the Telegram client a run has made\<close>
  "calls es = length (filter is_call es)"

definition welcome_text :: string where
  \<comment> \<open>lines 132-141\<close>
  "welcome_text = welcome_1 @ SYMBOL @ welcome_2 @ TIMEFRAME @ welcome_3"

definition start :: "world \<Rightarrow> message \<Rightarrow> (py_exception + unit) \<times> effect list" where
  \<comment> \<open>lines 130-143; the handler has no \<^verbatim>\<open>try\<close>\<close>
  "start w message =
     (case reply_to w 0 message welcome_text HTML of
        (Inl e, es) \<Rightarrow> (Inl e, es)
      | (Inr u, es) \<Rightarrow>
          (Inr (),
           es @ [Log INFO (msg_user @ str_int (from_user_id message) @ msg_user_started)]))"

text \<open>The \<^verbatim>\<open>try\<close> block of \<^verbatim>\<open>status\<close>, lines 148-158.\<close>

definition status_try :: "runtime \<Rightarrow> world \<Rightarrow> message \<Rightarrow> (py_exception + unit) \<times> effect list" where
  "status_try rt w message =
     (case send_message w 0 (Chat_id (chat_id message)) txt_fetching Plain of
        (Inl e, es0) \<Rightarrow> (Inl e, es0)
      | (Inr u, es0) \<Rightarrow>
          (case get_signal rt w of
             (Inl e, es1) \<Rightarrow> (Inl e, es0 @ es1)
           | (Inr (Some signal_data), es1) \<Rightarrow>
               (case send_message w 1 (Chat_id (chat_id message))
                       (format_signal_message rt signal_data) HTML of
                  (r, es2) \<Rightarrow> (r, es0 @ es1 @ es2))
           | (Inr None, es1) \<Rightarrow>
               (case send_message w 1 (Chat_id (chat_id message)) txt_unavailable Plain of
                  (r, es2) \<Rightarrow> (r, es0 @ es1 @ es2))))"

text \<open>
  \<^verbatim>\<open>status\<close>, lines 145-164: the \<^verbatim>\<open>try\<close> block and its \<^verbatim>\<open>except Exception\<close>, whose own
  send is the next call of the client and is not guarded.
\<close>

definition status :: "runtime \<Rightarrow> world \<Rightarrow> message \<Rightarrow> (py_exception + unit) \<times> effect list" where
  "status rt w message =
     (case status_try rt w message of
        (Inr u, es) \<Rightarrow> (Inr (), es)
      | (Inl e, es) \<Rightarrow>
          (case send_message w (calls es) (Chat_id (chat_id message))
                  (txt_error @ str_exc e) Plain of
             (r, es') \<Rightarrow> (r, es @ [Log ERROR (msg_status_error @ str_exc e)] @ es')))"

definition info_text :: "TradingBot \<Rightarrow> string" where
  \<comment> \<open>lines 168-175\<close>
  "info_text trading_bot =
     info_1 @ SYMBOL @ info_2 @ TIMEFRAME @ info_3 @ str_nat (CHECK_INTERVAL div 60) @ info_4
     @ (if is_running trading_bot then txt_active else txt_inactive) @ info_5
     @ (case last_signal trading_bot of
          Some stored \<Rightarrow> direction stored
        | None \<Rightarrow> txt_no_data)
     @ info_6"

definition info :: "world \<Rightarrow> message \<Rightarrow> TradingBot \<Rightarrow> (py_exception + unit) \<times> effect list" where
  \<comment> \<open>lines 166-176; the handler has no \<^verbatim>\<open>try\<close>\<close>
  "info w message trading_bot = reply_to w 0 message (info_text trading_bot) HTML"

definition help_command :: "world \<Rightarrow> message \<Rightarrow> (py_exception + unit) \<times> effect list" where
  \<comment> \<open>lines 178-194; the handler has no \<^verbatim>\<open>try\<close>\<close>
  "help_command w message = reply_to w 0 message help_text HTML"

subsection \<open>The module and its main block\<close>

definition launched_text :: string where
  \<comment> \<open>lines 208-209\<close>
  "launched_text = txt_launched_1 @ SYMBOL @ txt_launched_2 @ TIMEFRAME"

text \<open>
  The \<^verbatim>\<open>except Exception\<close> of the main block, lines 220-225, entered after the effects
  \<open>es\<close>: the send is inside \<^verbatim>\<open>try\<close> ... \<^verbatim>\<open>except: pass\<close>, so what it raises is dropped.
\<close>

definition main_except :: "runtime \<Rightarrow> world \<Rightarrow> py_exception \<Rightarrow> effect list \<Rightarrow> effect list" where
  "main_except rt w e es =
     es @ [Log CRITICAL (msg_critical @ str_exc e)]
     @ snd (send_message w (calls es) (Chat_env (CHAT_ID rt)) (txt_critical @ str_exc e) Plain)"

text \<open>
  The main block, lines 197-225. \<open>Thread_start\<close> starts \<open>auto_check\<close> in its own
  thread and \<open>Infinity_polling\<close> starts the listener; what the loop and the handlers
  then do are runs of their own and are not interleaved here.
\<close>

definition main ::
  "runtime \<Rightarrow> world \<Rightarrow> TradingBot \<Rightarrow> (py_exception + unit) \<times> effect list \<times> TradingBot" where
  "main rt w trading_bot =
     (case send_message w 0 (Chat_env (CHAT_ID rt)) launched_text HTML of
        (Inl e, es1) \<Rightarrow>
          (Inr (), main_except rt w e ([Log INFO msg_launching, Thread_start] @ es1), trading_bot)
      | (Inr u, es1) \<Rightarrow>
          (case polling w of
             Poll_returns \<Rightarrow>
               (Inr (),
                [Log INFO msg_launching, Thread_start] @ es1
                  @ [Log INFO msg_launched, Infinity_polling],
                trading_bot)
           | Poll_KeyboardInterrupt \<Rightarrow>
               (case stop trading_bot of
                  (es_stop, stopped) \<Rightarrow>
                    (case send_message w 1 (Chat_env (CHAT_ID rt)) txt_bot_stopped Plain of
                       (r, es2) \<Rightarrow>
                         (r,
                          [Log INFO msg_launching, Thread_start] @ es1
                            @ [Log INFO msg_launched, Infinity_polling, Log INFO msg_interrupt]
                            @ es_stop @ es2,
                          stopped)))
           | Poll_raises e \<Rightarrow>
               (Inr (),
                main_except rt w e
                  ([Log INFO msg_launching, Thread_start] @ es1
                     @ [Log INFO msg_launched, Infinity_polling]),
                trading_bot)))"

text \<open>
  The module, run as a script: the validation of lines 26-27, the construction of the
  Telegram client (line 30) and of the exchange client (lines 31-34), the construction of
  the \<^verbatim>\<open>TradingBot\<close> (line 127), then the main block. Nothing at module level is inside
  a \<^verbatim>\<open>try\<close>, so an exception of a constructor ends the run as the one of the validation
  does. The last component is the \<^verbatim>\<open>TradingBot\<close>, if one was made.
\<close>

definition module_level ::
  "runtime \<Rightarrow> world \<Rightarrow> (py_exception + unit) \<times> effect list \<times> TradingBot option" where
  "module_level rt w =
     (if \<not> truthy (TOKEN rt) \<or> \<not> truthy (CHAT_ID rt)
      then (Inl (ValueError msg_env_missing), [], None)
      else
        (case telebot_TeleBot rt (TOKEN rt) of
           Some e \<Rightarrow> (Inl e, [], None)
         | None \<Rightarrow>
             (case ccxt_binance rt of
                Some e \<Rightarrow> (Inl e, [], None)
              | None \<Rightarrow>
                  (case main rt w init of
                     (r, es, trading_bot) \<Rightarrow> (r, es, Some trading_bot)))))"

subsection \<open>Example inputs\<close>

definition example_runtime :: runtime where
  "example_runtime =
     \<lparr>getenv = (\<lambda>k. if k = ''TELEGRAM_TOKEN'' then Some ''1:a''
                     else if k = ''TELEGRAM_CHAT_ID'' then Some ''42'' else None),
      fmt_2f = (\<lambda>x. ''67000.00''),
      str_float = (\<lambda>x. ''67000.0''),
      telebot_TeleBot = (\<lambda>t. None),
      ccxt_binance = None\<rparr>"

definition example_bar :: bar where
  "example_bar =
     \<lparr>bar_timestamp = 1700000000000, bar_open = Finite 66990, bar_high = Finite 67010,
      bar_low = Finite 66980, bar_close = Finite 67000, bar_volume = Finite 12\<rparr>"

definition example_row :: "pyfloat \<Rightarrow> st_row" where
  "example_row d = \<lparr>SUPERT = Finite 66500, SUPERTd = d, SUPERTl = Finite 66500, SUPERTs = NaN\<rparr>"

text \<open>
  A world in which the exchange answers \<open>f\<close>, the indicator reports direction \<open>d\<close> for
  the only bar, and the \<open>k\<close>-th Telegram call raises what \<open>s k\<close> says.
\<close>

definition example_world ::
  "(py_exception + bar list) \<Rightarrow> pyfloat \<Rightarrow> (nat \<Rightarrow> py_exception option) \<Rightarrow> world" where
  "example_world f d s =
     \<lparr>fetch_ohlcv = (\<lambda>sym tf lim. f),
      supertrend = (\<lambda>h l c len mult. Inr (Some [example_row d])),
      now = ''2024-01-01 00:00:00'',
      send_raises = s,
      stop_called = False,
      polling = Poll_returns\<rparr>"

definition example_signal :: "string \<Rightarrow> signal_data" where
  "example_signal d = \<lparr>direction = d, price = Finite 67000, timestamp = ''2024-01-01 00:00:00''\<rparr>"

definition running :: TradingBot where
  "running = \<lparr>last_signal = None, is_running = True\<rparr>"

section \<open>Properties\<close>

subsection \<open>Shared facts\<close>

lemma BUY_neq_SELL: "BUY \<noteq> SELL"
  by (simp add: BUY_def SELL_def)

lemma get_signal_except_None: "\<exists>l. get_signal_except e = (Inr None, [Log ERROR l])"
  by (cases e) simp_all

lemma get_signal_never_raises: "\<exists>r es. get_signal rt w = (Inr r, es)"
proof (cases "get_signal_try rt w")
  case (Pair res es)
  show ?thesis
  proof (cases res)
    case (Inl e)
    obtain l where "get_signal_except e = (Inr None, [Log ERROR l])"
      using get_signal_except_None by blast
    with Pair Inl show ?thesis by (simp add: get_signal_def)
  next
    case (Inr r)
    with Pair show ?thesis by (simp add: get_signal_def)
  qed
qed

lemma get_signal_shape: "\<exists>r l m. get_signal rt w = (Inr r, [Log l m])"
proof (cases "get_signal_try rt w")
  case (Pair res es)
  show ?thesis
  proof (cases res)
    case (Inl e)
    have "es = []"
      using Pair Inl
      by (auto simp add: get_signal_try_def Let_def split: sum.splits option.splits if_splits)
    moreover obtain l where "get_signal_except e = (Inr None, [Log ERROR l])"
      using get_signal_except_None by blast
    ultimately show ?thesis using Pair Inl by (simp add: get_signal_def)
  next
    case (Inr r)
    have "\<exists>l m. es = [Log l m]"
      using Pair Inr
      by (auto simp add: get_signal_try_def Let_def split: sum.splits option.splits if_splits)
    then show ?thesis using Pair Inr by (auto simp add: get_signal_def)
  qed
qed

lemma get_signal_evaluated:
  "\<exists>l m. get_signal rt w = (Inr (evaluated rt w), [Log l m])"
  using get_signal_shape [of rt w] by (auto simp add: evaluated_def)

lemma sends_Nil [simp]: "sends [] = []"
  by (simp add: sends_def)

lemma sends_Cons [simp]: "sends (e # es) = (if is_send e then e # sends es else sends es)"
  by (simp add: sends_def)

lemma sends_append [simp]: "sends (xs @ ys) = sends xs @ sends ys"
  by (simp add: sends_def)

lemma sleeps_append [simp]: "sleeps (xs @ ys) = sleeps xs @ sleeps ys"
  by (induction xs rule: sleeps.induct) simp_all

lemma iteration_no_signal:
  assumes "evaluated rt w = None"
  shows "auto_check_iteration rt w self = (snd (get_signal rt w) @ [Sleep CHECK_INTERVAL], self)"
  using get_signal_evaluated [of rt w] assms
  by (auto simp add: auto_check_iteration_def auto_check_try_def)

lemma iteration_repeat:
  assumes "evaluated rt w = Some cs" and "\<not> direction_changed self cs"
  shows "auto_check_iteration rt w self = (snd (get_signal rt w) @ [Sleep CHECK_INTERVAL], self)"
  using get_signal_evaluated [of rt w] assms
  by (auto simp add: auto_check_iteration_def auto_check_try_def)

lemma iteration_sent:
  assumes "evaluated rt w = Some cs" and "direction_changed self cs" and "send_raises w 0 = None"
  shows "auto_check_iteration rt w self =
           (snd (get_signal rt w)
              @ [new_signal_message rt cs, Log INFO (msg_notified @ direction cs),
                 Sleep CHECK_INTERVAL],
            self\<lparr>last_signal := Some cs\<rparr>)"
  using get_signal_evaluated [of rt w] assms
  by (auto simp add: auto_check_iteration_def auto_check_try_def)

lemma iteration_send_failed:
  assumes "evaluated rt w = Some cs" and "direction_changed self cs" and "send_raises w 0 = Some e"
  shows "auto_check_iteration rt w self =
           (snd (get_signal rt w)
              @ [Send_message (Chat_env (CHAT_ID rt))
                   (new_signal_head @ format_signal_message rt cs) HTML Failed,
                 Log ERROR (msg_loop_error @ str_exc e), Sleep 60],
            self)"
  using get_signal_evaluated [of rt w] assms
  by (auto simp add: auto_check_iteration_def auto_check_try_def)

lemma sends_get_signal [simp]: "sends (snd (get_signal rt w)) = []"
  using get_signal_shape [of rt w] by auto

lemma sleeps_get_signal [simp]: "sleeps (snd (get_signal rt w)) = []"
  using get_signal_shape [of rt w] by auto

lemma iteration_cases:
  obtains (no_signal) "evaluated rt w = None"
  | (repeat) cs where "evaluated rt w = Some cs" and "\<not> direction_changed self cs"
  | (sent) cs where "evaluated rt w = Some cs" and "direction_changed self cs"
      and "send_raises w 0 = None"
  | (failed) cs e where "evaluated rt w = Some cs" and "direction_changed self cs"
      and "send_raises w 0 = Some e"
  by (cases "evaluated rt w"; cases "send_raises w 0") auto

lemma iteration_keeps_flag: "is_running (snd (auto_check_iteration rt w self)) = is_running self"
  by (cases rule: iteration_cases [where rt = rt and w = w and self = self])
     (simp_all add: iteration_no_signal iteration_repeat iteration_sent iteration_send_failed)

lemma direction_changed_iff:
  "direction_changed self cs \<longleftrightarrow> map_option direction (last_signal self) \<noteq> Some (direction cs)"
  by (cases "last_signal self") (auto simp add: direction_changed_def)

lemma iteration_delivered:
  assumes "send_raises w 0 = None"
  shows "sends (fst (auto_check_iteration rt w self)) =
           map (new_signal_message rt)
             (spec_announcements (map_option direction (last_signal self)) [evaluated rt w])"
    and "map_option direction (last_signal (snd (auto_check_iteration rt w self))) =
           (case evaluated rt w of
              None \<Rightarrow> map_option direction (last_signal self)
            | Some cs \<Rightarrow> Some (direction cs))"
proof -
  have "sends (fst (auto_check_iteration rt w self)) =
           map (new_signal_message rt)
             (spec_announcements (map_option direction (last_signal self)) [evaluated rt w])
        \<and> map_option direction (last_signal (snd (auto_check_iteration rt w self))) =
           (case evaluated rt w of
              None \<Rightarrow> map_option direction (last_signal self)
            | Some cs \<Rightarrow> Some (direction cs))"
  proof (cases rule: iteration_cases [where rt = rt and w = w and self = self])
    case no_signal
    then show ?thesis by (simp add: iteration_no_signal)
  next
    case (repeat cs)
    then show ?thesis
      by (simp add: iteration_repeat direction_changed_iff)
  next
    case (sent cs)
    then show ?thesis
      by (simp add: iteration_sent direction_changed_iff new_signal_message_def)
  next
    case (failed cs e)
    with assms show ?thesis by simp
  qed
  then show "sends (fst (auto_check_iteration rt w self)) =
           map (new_signal_message rt)
             (spec_announcements (map_option direction (last_signal self)) [evaluated rt w])"
    and "map_option direction (last_signal (snd (auto_check_iteration rt w self))) =
           (case evaluated rt w of
              None \<Rightarrow> map_option direction (last_signal self)
            | Some cs \<Rightarrow> Some (direction cs))"
    by simp_all
qed

lemma spec_announcements_Cons:
  "spec_announcements prev (x # xs) =
     spec_announcements prev [x]
       @ spec_announcements (case x of None \<Rightarrow> prev | Some s \<Rightarrow> Some (direction s)) xs"
  by (cases x) simp_all

lemma loop_step:
  assumes "is_running self" and "\<not> stop_called w"
  shows "auto_check_loop rt (w # ws) self =
           (fst (auto_check_iteration rt w self)
              @ fst (auto_check_loop rt ws (snd (auto_check_iteration rt w self))),
            snd (auto_check_loop rt ws (snd (auto_check_iteration rt w self))))"
  using assms by (simp add: split_beta)

lemma loop_announcements:
  assumes "is_running self" and "\<forall>w\<in>set ws. \<not> stop_called w \<and> send_raises w 0 = None"
  shows "sends (fst (auto_check_loop rt ws self)) =
           map (new_signal_message rt)
             (spec_announcements (map_option direction (last_signal self)) (map (evaluated rt) ws))"
  using assms
proof (induction ws arbitrary: self)
  case Nil
  then show ?case by simp
next
  case (Cons w ws)
  let ?self1 = "snd (auto_check_iteration rt w self)"
  have ok: "send_raises w 0 = None" and nostop: "\<not> stop_called w"
    using Cons.prems(2) by simp_all
  have run1: "is_running ?self1"
    using Cons.prems(1) by (simp add: iteration_keeps_flag)
  have rest: "sends (fst (auto_check_loop rt ws ?self1)) =
           map (new_signal_message rt)
             (spec_announcements (map_option direction (last_signal ?self1)) (map (evaluated rt) ws))"
    using Cons.IH [OF run1] Cons.prems(2) by simp
  show ?case
    using rest iteration_delivered [OF ok, of rt self]
    by (simp del: auto_check_loop.simps add: loop_step [OF Cons.prems(1) nostop]
        spec_announcements_Cons [of _ "evaluated rt w" "map (evaluated rt) ws"])
qed

lemma loop_never_ends:
  assumes "is_running self" and "\<forall>w\<in>set ws. \<not> stop_called w"
  shows "is_running (snd (auto_check_loop rt ws self))
         \<and> length (sleeps (fst (auto_check_loop rt ws self))) = length ws
         \<and> set (sleeps (fst (auto_check_loop rt ws self))) \<subseteq> {CHECK_INTERVAL, 60}"
  using assms
proof (induction ws arbitrary: self)
  case Nil
  then show ?case by simp
next
  case (Cons w ws)
  let ?self1 = "snd (auto_check_iteration rt w self)"
  have nostop: "\<not> stop_called w" using Cons.prems(2) by simp
  have run1: "is_running ?self1"
    using Cons.prems(1) by (simp add: iteration_keeps_flag)
  have one: "sleeps (fst (auto_check_iteration rt w self)) = [CHECK_INTERVAL]
             \<or> sleeps (fst (auto_check_iteration rt w self)) = [60]"
    by (cases rule: iteration_cases [where rt = rt and w = w and self = self])
       (simp_all add: iteration_no_signal iteration_repeat iteration_sent iteration_send_failed
          new_signal_message_def)
  have rest: "is_running (snd (auto_check_loop rt ws ?self1))
         \<and> length (sleeps (fst (auto_check_loop rt ws ?self1))) = length ws
         \<and> set (sleeps (fst (auto_check_loop rt ws ?self1))) \<subseteq> {CHECK_INTERVAL, 60}"
    using Cons.IH [OF run1] Cons.prems(2) by simp
  show ?case
    using rest one
    by (auto simp del: auto_check_loop.simps simp add: loop_step [OF Cons.prems(1) nostop])
qed

lemma try_raises:
  assumes "fst (auto_check_try rt w self) = Inl e"
  shows "\<exists>cs. evaluated rt w = Some cs \<and> direction_changed self cs \<and> send_raises w 0 = Some e"
  using get_signal_evaluated [of rt w] assms
  by (auto simp add: auto_check_try_def split: option.splits if_splits)

lemma evaluated_eq: "fst (get_signal rt w) = Inr r \<longleftrightarrow> evaluated rt w = r"
  using get_signal_evaluated [of rt w] by auto

lemma get_signal_try_raises:
  assumes "fst (get_signal_try rt w) = Inl e"
  shows "get_signal_try rt w = (Inl e, [])"
  using assms
  by (auto simp add: get_signal_try_def Let_def split: sum.splits option.splits if_splits)

lemma get_signal_try_fetch_raises:
  assumes "fetch_ohlcv w SYMBOL TIMEFRAME 100 = Inl e"
  shows "fst (get_signal_try rt w) = Inl e"
  using assms by (simp add: get_signal_try_def)

lemma get_signal_caught:
  assumes "fst (get_signal_try rt w) = Inl e"
  shows "get_signal rt w =
           (Inr None,
            [Log ERROR
               ((case e of
                   NetworkError m \<Rightarrow> msg_network_error
                 | ExchangeError m \<Rightarrow> msg_exchange_error
                 | ValueError m \<Rightarrow> msg_unexpected_error
                 | OtherException m \<Rightarrow> msg_unexpected_error) @ str_exc e)])"
  by (cases e) (simp_all add: get_signal_def get_signal_try_raises [OF assms])

lemma sublist_later: "sublist x ys \<Longrightarrow> sublist x (a @ ys)"
  by (metis append.assoc sublist_def)

lemma sublist_here: "sublist x (x @ b)"
  by (metis append_Nil sublist_def)

lemma sublist_here2: "sublist (x @ y) (x @ y @ b)"
  by (metis append.assoc sublist_here)

subsection \<open>Facts about the example inputs\<close>

lemma example_get_signal:
  "get_signal example_runtime (example_world (Inr [example_bar]) d s) =
     (Inr (Some (example_signal (if d = Finite 1 then BUY else SELL))),
      [Log INFO (msg_signal @ (if d = Finite 1 then BUY else SELL) @ msg_at_price @ ''67000.0'')])"
  by (auto simp add: get_signal_def get_signal_try_def example_world_def example_row_def
      example_bar_def example_signal_def example_runtime_def py_eq_def)

lemma example_evaluated:
  "evaluated example_runtime (example_world (Inr [example_bar]) d s) =
     Some (example_signal (if d = Finite 1 then BUY else SELL))"
  by (simp add: evaluated_def example_get_signal)

lemma example_world_sel [simp]:
  "send_raises (example_world f d s) = s" "stop_called (example_world f d s) = False"
  by (simp_all add: example_world_def)

lemma example_signal_direction [simp]: "direction (example_signal d) = d"
  by (simp add: example_signal_def)

lemma example_runtime_sel:
  "CHAT_ID example_runtime = Some ''42''" "fmt_2f example_runtime x = ''67000.00''"
  by (simp_all add: CHAT_ID_def example_runtime_def)

subsection \<open>The signal evaluator\<close>

text \<open>
  C3. When the exchange returns no candle, \<open>get_signal\<close> returns \<^verbatim>\<open>None\<close> without
  raising: no exception reaches even its own \<^verbatim>\<open>except\<close> clauses, and the only effect is
  one log entry of level WARNING.
\<close>

theorem get_signal_empty_candles:
  assumes "fetch_ohlcv w SYMBOL TIMEFRAME 100 = Inr []"
  shows "get_signal_try rt w = (Inr None, [Log WARNING msg_empty_data])
         \<and> get_signal rt w = (Inr None, [Log WARNING msg_empty_data])"
  using assms by (simp add: get_signal_def get_signal_try_def)

theorem get_signal_empty_candles_witness:
  "fetch_ohlcv (example_world (Inr []) (Finite 1) (\<lambda>k. None)) SYMBOL TIMEFRAME 100 = Inr []
   \<and> get_signal example_runtime (example_world (Inr []) (Finite 1) (\<lambda>k. None))
       = (Inr None, [Log WARNING msg_empty_data])"
proof -
  have h: "fetch_ohlcv (example_world (Inr []) (Finite 1) (\<lambda>k. None)) SYMBOL TIMEFRAME 100 = Inr []"
    by (simp add: example_world_def)
  show ?thesis
    using h get_signal_empty_candles [OF h, of example_runtime] by simp
qed

text \<open>
  C4. When fetching the candles raises a network error or an exchange error,
  \<open>get_signal\<close> catches it and returns \<^verbatim>\<open>None\<close>; its only effect is one log entry of
  level ERROR, which ends with the text of the exception.
\<close>

theorem get_signal_fetch_failure:
  assumes "fetch_ohlcv w SYMBOL TIMEFRAME 100 = Inl e"
    and "e = NetworkError m \<or> e = ExchangeError m"
  shows "get_signal rt w =
           (Inr None,
            [Log ERROR ((if e = NetworkError m then msg_network_error else msg_exchange_error)
                        @ str_exc e)])"
  using assms by (auto simp add: get_signal_def get_signal_try_def)

theorem get_signal_fetch_failure_witness:
  "get_signal example_runtime
     (example_world (Inl (NetworkError ''timed out'')) (Finite 1) (\<lambda>k. None))
     = (Inr None, [Log ERROR (msg_network_error @ ''timed out'')])
   \<and> get_signal example_runtime
     (example_world (Inl (ExchangeError ''bad symbol'')) (Finite 1) (\<lambda>k. None))
     = (Inr None, [Log ERROR (msg_exchange_error @ ''bad symbol'')])"
  using get_signal_fetch_failure
          [of "example_world (Inl (NetworkError ''timed out'')) (Finite 1) (\<lambda>k. None)"
              "NetworkError ''timed out''" "''timed out''" example_runtime]
        get_signal_fetch_failure
          [of "example_world (Inl (ExchangeError ''bad symbol'')) (Finite 1) (\<lambda>k. None)"
              "ExchangeError ''bad symbol''" "''bad symbol''" example_runtime]
  by (simp add: example_world_def)

text \<open>
  C10. When there are candles and the indicator returns a frame with rows, \<open>get_signal\<close>
  returns a signal whose direction is \<open>BUY\<close> exactly when the last row's direction value
  is 1, and \<open>SELL\<close> for every other value, NaN included; the two texts differ.
\<close>

theorem get_signal_direction:
  assumes "fetch_ohlcv w SYMBOL TIMEFRAME 100 = Inr bars" and "bars \<noteq> []"
    and "supertrend w (map bar_high bars) (map bar_low bars) (map bar_close bars) 10 (Finite 3)
           = Inr (Some st)"
    and "st \<noteq> []"
  shows "\<exists>s es. get_signal rt w = (Inr (Some s), es)
           \<and> (direction s = BUY \<longleftrightarrow> SUPERTd (last st) = Finite 1)
           \<and> (direction s = SELL \<longleftrightarrow> SUPERTd (last st) \<noteq> Finite 1)"
  using assms BUY_neq_SELL
  by (simp add: get_signal_def get_signal_try_def py_eq_def Let_def)

theorem get_signal_direction_witness:
  "(\<exists>s es. get_signal example_runtime (example_world (Inr [example_bar]) (Finite 1) (\<lambda>k. None))
             = (Inr (Some s), es) \<and> direction s = BUY)
   \<and> (\<exists>s es. get_signal example_runtime (example_world (Inr [example_bar]) (Finite (- 1)) (\<lambda>k. None))
             = (Inr (Some s), es) \<and> direction s = SELL)
   \<and> (\<exists>s es. get_signal example_runtime (example_world (Inr [example_bar]) NaN (\<lambda>k. None))
             = (Inr (Some s), es) \<and> direction s = SELL)"
proof -
  have g: "\<exists>s es. get_signal example_runtime (example_world (Inr [example_bar]) d (\<lambda>k. None))
                    = (Inr (Some s), es)
                 \<and> (direction s = BUY \<longleftrightarrow> d = Finite 1)
                 \<and> (direction s = SELL \<longleftrightarrow> d \<noteq> Finite 1)" for d
    using get_signal_direction
            [of "example_world (Inr [example_bar]) d (\<lambda>k. None)" "[example_bar]"
                "[example_row d]" example_runtime]
    by (simp add: example_world_def example_row_def)
  have "\<exists>s es. get_signal example_runtime (example_world (Inr [example_bar]) (Finite 1) (\<lambda>k. None))
             = (Inr (Some s), es) \<and> direction s = BUY"
    using g [of "Finite 1"] by auto
  moreover
  have "\<exists>s es. get_signal example_runtime (example_world (Inr [example_bar]) (Finite (- 1)) (\<lambda>k. None))
             = (Inr (Some s), es) \<and> direction s = SELL"
    using g [of "Finite (- 1)"] by auto
  moreover
  have "\<exists>s es. get_signal example_runtime (example_world (Inr [example_bar]) NaN (\<lambda>k. None))
             = (Inr (Some s), es) \<and> direction s = SELL"
    using g [of NaN] by auto
  ultimately show ?thesis by blast
qed

subsection \<open>The tracker and the polling loop\<close>

text \<open>
  C1. In an iteration whose evaluation yields a signal, \<^verbatim>\<open>bot.send_message\<close> is called
  once, with that signal, when nothing is stored or the stored direction differs, and
  not at all when the stored direction is the same. Along any run in which the sends
  succeed, the notifications are therefore those of the specification's rule: one for
  the first signal, one for each signal whose direction differs from the one before it,
  none for a repeated direction or a missing signal.
\<close>

theorem notification_iff_direction_changed:
  "(fst (get_signal rt w) = Inr (Some cs) \<longrightarrow>
      sends (fst (auto_check_iteration rt w self)) =
        (if direction_changed self cs
         then [Send_message (Chat_env (CHAT_ID rt))
                 (new_signal_head @ format_signal_message rt cs) HTML
                 (if send_raises w 0 = None then Delivered else Failed)]
         else []))
   \<and> (is_running self \<and> (\<forall>w\<in>set ws. \<not> stop_called w \<and> send_raises w 0 = None) \<longrightarrow>
      sends (fst (auto_check_loop rt ws self)) =
        map (new_signal_message rt)
          (spec_announcements (map_option direction (last_signal self))
             (map (evaluated rt) ws)))"
proof (intro conjI impI)
  assume "fst (get_signal rt w) = Inr (Some cs)"
  then have ev: "evaluated rt w = Some cs" by (simp add: evaluated_eq)
  show "sends (fst (auto_check_iteration rt w self)) =
        (if direction_changed self cs
         then [Send_message (Chat_env (CHAT_ID rt))
                 (new_signal_head @ format_signal_message rt cs) HTML
                 (if send_raises w 0 = None then Delivered else Failed)]
         else [])"
  proof (cases rule: iteration_cases [where rt = rt and w = w and self = self])
    case no_signal
    with ev show ?thesis by simp
  next
    case (repeat cs')
    with ev show ?thesis by (simp add: iteration_repeat)
  next
    case (sent cs')
    with ev show ?thesis by (simp add: iteration_sent new_signal_message_def)
  next
    case (failed cs' e)
    with ev show ?thesis by (simp add: iteration_send_failed)
  qed
next
  assume "is_running self \<and> (\<forall>w\<in>set ws. \<not> stop_called w \<and> send_raises w 0 = None)"
  then show "sends (fst (auto_check_loop rt ws self)) =
        map (new_signal_message rt)
          (spec_announcements (map_option direction (last_signal self))
             (map (evaluated rt) ws))"
    using loop_announcements [of self ws rt] by blast
qed

theorem notification_iff_direction_changed_witness:
  "sends (fst (auto_check_iteration example_runtime
                 (example_world (Inr [example_bar]) (Finite 1) (\<lambda>k. None)) running))
     = [new_signal_message example_runtime (example_signal BUY)]
   \<and> sends (fst (auto_check_loop example_runtime
                 [example_world (Inr [example_bar]) (Finite 1) (\<lambda>k. None),
                  example_world (Inr [example_bar]) (Finite 1) (\<lambda>k. None),
                  example_world (Inr [example_bar]) (Finite (- 1)) (\<lambda>k. None)] running))
     = [new_signal_message example_runtime (example_signal BUY),
        new_signal_message example_runtime (example_signal SELL)]"
  using notification_iff_direction_changed
          [of example_runtime "example_world (Inr [example_bar]) (Finite 1) (\<lambda>k. None)"
              "example_signal BUY" running
              "[example_world (Inr [example_bar]) (Finite 1) (\<lambda>k. None),
                example_world (Inr [example_bar]) (Finite 1) (\<lambda>k. None),
                example_world (Inr [example_bar]) (Finite (- 1)) (\<lambda>k. None)]"]
        BUY_neq_SELL
  by (simp add: example_get_signal example_evaluated running_def direction_changed_def
      new_signal_message_def)

text \<open>
  C5. In an iteration whose evaluation yields \<^verbatim>\<open>None\<close>, the bot is left as it was, in
  particular its \<open>last_signal\<close>, and \<^verbatim>\<open>bot.send_message\<close> is not called: the iteration
  only sleeps for the regular interval.
\<close>

theorem no_signal_no_change:
  assumes "fst (get_signal rt w) = Inr None"
  shows "snd (auto_check_iteration rt w self) = self
         \<and> sends (fst (auto_check_iteration rt w self)) = []
         \<and> fst (auto_check_iteration rt w self) = snd (get_signal rt w) @ [Sleep CHECK_INTERVAL]"
proof -
  have "evaluated rt w = None" using assms by (simp add: evaluated_eq)
  then show ?thesis by (simp add: iteration_no_signal)
qed

theorem no_signal_no_change_witness:
  "fst (get_signal example_runtime (example_world (Inr []) (Finite 1) (\<lambda>k. None))) = Inr None
   \<and> auto_check_iteration example_runtime (example_world (Inr []) (Finite 1) (\<lambda>k. None))
        \<lparr>last_signal = Some (example_signal BUY), is_running = True\<rparr>
     = ([Log WARNING msg_empty_data, Sleep CHECK_INTERVAL],
        \<lparr>last_signal = Some (example_signal BUY), is_running = True\<rparr>)"
proof -
  have g: "get_signal example_runtime (example_world (Inr []) (Finite 1) (\<lambda>k. None))
             = (Inr None, [Log WARNING msg_empty_data])"
    by (simp add: get_signal_def get_signal_try_def example_world_def)
  then have h: "fst (get_signal example_runtime (example_world (Inr []) (Finite 1) (\<lambda>k. None)))
             = Inr None"
    by simp
  show ?thesis
    using h g no_signal_no_change
                [OF h, of "\<lparr>last_signal = Some (example_signal BUY), is_running = True\<rparr>"]
    by (simp add: prod_eq_iff)
qed

text \<open>
  C6, as the code has it. A failure of the evaluation (the exchange or the indicator
  raises) never reaches the loop: \<open>get_signal\<close> catches and logs it, the iteration sees
  \<^verbatim>\<open>None\<close> and sleeps the regular interval, which is 15 minutes. The loop's own
  \<^verbatim>\<open>except\<close> is reached by a failing send of a notification only; it logs the exception
  and sleeps 60 seconds, with no regular sleep in that iteration. In both cases the loop
  leaves the bot as it was and goes on with the next iteration. As long as \<^verbatim>\<open>stop()\<close> is
  not called the flag stays set and every iteration ends with one sleep, of the regular
  interval or of 60 seconds, whatever the libraries raise; \<open>auto_check\<close> sets the flag
  itself before the first test.
\<close>

theorem loop_survives_failure:
  "(is_running self \<and> \<not> stop_called w
      \<and> (fetch_ohlcv w SYMBOL TIMEFRAME 100 = Inl e \<or> fst (get_signal_try rt w) = Inl e) \<longrightarrow>
      auto_check_loop rt (w # ws) self =
        ([Log ERROR
            ((case e of
                NetworkError m \<Rightarrow> msg_network_error
              | ExchangeError m \<Rightarrow> msg_exchange_error
              | ValueError m \<Rightarrow> msg_unexpected_error
              | OtherException m \<Rightarrow> msg_unexpected_error) @ str_exc e),
          Sleep CHECK_INTERVAL]
           @ fst (auto_check_loop rt ws self),
         snd (auto_check_loop rt ws self)))
   \<and> (is_running self \<and> \<not> stop_called w
      \<and> fst (get_signal rt w) = Inr (Some cs) \<and> direction_changed self cs
      \<and> send_raises w 0 = Some e \<longrightarrow>
      auto_check_loop rt (w # ws) self =
        (snd (get_signal rt w)
           @ [Send_message (Chat_env (CHAT_ID rt))
                (new_signal_head @ format_signal_message rt cs) HTML Failed,
              Log ERROR (msg_loop_error @ str_exc e), Sleep 60]
           @ fst (auto_check_loop rt ws self),
         snd (auto_check_loop rt ws self))
      \<and> sleeps (snd (get_signal rt w)) = [])
   \<and> (fst (auto_check_try rt w self) = Inl e \<longrightarrow>
      (\<exists>cs. fst (get_signal rt w) = Inr (Some cs) \<and> direction_changed self cs
            \<and> send_raises w 0 = Some e))
   \<and> (is_running self \<and> (\<forall>w\<in>set ws'. \<not> stop_called w) \<longrightarrow>
        is_running (snd (auto_check_loop rt ws' self))
        \<and> length (sleeps (fst (auto_check_loop rt ws' self))) = length ws'
        \<and> set (sleeps (fst (auto_check_loop rt ws' self))) \<subseteq> {CHECK_INTERVAL, 60})
   \<and> ((\<forall>w\<in>set ws'. \<not> stop_called w) \<longrightarrow>
        is_running (snd (auto_check rt ws' self))
        \<and> length (sleeps (fst (auto_check rt ws' self))) = length ws')
   \<and> CHECK_INTERVAL = 15 * 60"
proof (intro conjI impI)
  assume a: "is_running self \<and> \<not> stop_called w
      \<and> (fetch_ohlcv w SYMBOL TIMEFRAME 100 = Inl e \<or> fst (get_signal_try rt w) = Inl e)"
  then have r: "fst (get_signal_try rt w) = Inl e"
    using get_signal_try_fetch_raises by blast
  have g: "get_signal rt w =
           (Inr None,
            [Log ERROR
               ((case e of
                   NetworkError m \<Rightarrow> msg_network_error
                 | ExchangeError m \<Rightarrow> msg_exchange_error
                 | ValueError m \<Rightarrow> msg_unexpected_error
                 | OtherException m \<Rightarrow> msg_unexpected_error) @ str_exc e)])"
    by (rule get_signal_caught [OF r])
  then have "evaluated rt w = None" by (simp add: evaluated_def)
  then show "auto_check_loop rt (w # ws) self =
        ([Log ERROR
            ((case e of
                NetworkError m \<Rightarrow> msg_network_error
              | ExchangeError m \<Rightarrow> msg_exchange_error
              | ValueError m \<Rightarrow> msg_unexpected_error
              | OtherException m \<Rightarrow> msg_unexpected_error) @ str_exc e),
          Sleep CHECK_INTERVAL]
           @ fst (auto_check_loop rt ws self),
         snd (auto_check_loop rt ws self))"
    using a g by (simp add: iteration_no_signal split_beta)
next
  assume a: "is_running self \<and> \<not> stop_called w
      \<and> fst (get_signal rt w) = Inr (Some cs) \<and> direction_changed self cs
      \<and> send_raises w 0 = Some e"
  then have cs: "evaluated rt w = Some cs" "direction_changed self cs" "send_raises w 0 = Some e"
    by (simp_all add: evaluated_eq)
  show "auto_check_loop rt (w # ws) self =
        (snd (get_signal rt w)
           @ [Send_message (Chat_env (CHAT_ID rt))
                (new_signal_head @ format_signal_message rt cs) HTML Failed,
              Log ERROR (msg_loop_error @ str_exc e), Sleep 60]
           @ fst (auto_check_loop rt ws self),
         snd (auto_check_loop rt ws self))"
    using a by (simp add: iteration_send_failed [OF cs] split_beta)
  show "sleeps (snd (get_signal rt w)) = []" by simp
next
  assume "fst (auto_check_try rt w self) = Inl e"
  then show "\<exists>cs. fst (get_signal rt w) = Inr (Some cs) \<and> direction_changed self cs
            \<and> send_raises w 0 = Some e"
    using try_raises [of rt w self e] by (simp add: evaluated_eq)
next
  assume "is_running self \<and> (\<forall>w\<in>set ws'. \<not> stop_called w)"
  then have "is_running (snd (auto_check_loop rt ws' self))
        \<and> length (sleeps (fst (auto_check_loop rt ws' self))) = length ws'
        \<and> set (sleeps (fst (auto_check_loop rt ws' self))) \<subseteq> {CHECK_INTERVAL, 60}"
    using loop_never_ends [of self ws' rt] by blast
  then show "is_running (snd (auto_check_loop rt ws' self))"
    and "length (sleeps (fst (auto_check_loop rt ws' self))) = length ws'"
    and "set (sleeps (fst (auto_check_loop rt ws' self))) \<subseteq> {CHECK_INTERVAL, 60}"
    by simp_all
next
  assume "\<forall>w\<in>set ws'. \<not> stop_called w"
  then have "is_running (snd (auto_check_loop rt ws' (self\<lparr>is_running := True\<rparr>)))
        \<and> length (sleeps (fst (auto_check_loop rt ws' (self\<lparr>is_running := True\<rparr>)))) = length ws'"
    using loop_never_ends [of "self\<lparr>is_running := True\<rparr>" ws' rt] by simp
  then show "is_running (snd (auto_check rt ws' self))"
    and "length (sleeps (fst (auto_check rt ws' self))) = length ws'"
    by (simp_all add: auto_check_def split_beta)
next
  show "CHECK_INTERVAL = 15 * 60" by (simp add: CHECK_INTERVAL_def)
qed

theorem loop_survives_failure_witness:
  "auto_check_loop example_runtime
     [example_world (Inl (NetworkError ''timed out'')) (Finite 1) (\<lambda>k. None),
      example_world (Inr [example_bar]) (Finite 1) (\<lambda>k. Some (NetworkError ''reset'')),
      example_world (Inr [example_bar]) (Finite 1) (\<lambda>k. None)] running
   = ([Log ERROR (msg_network_error @ ''timed out''), Sleep CHECK_INTERVAL,
       Log INFO (msg_signal @ BUY @ msg_at_price @ ''67000.0''),
       Send_message (Chat_env (Some ''42''))
         (new_signal_head @ format_signal_message example_runtime (example_signal BUY)) HTML Failed,
       Log ERROR (msg_loop_error @ ''reset''), Sleep 60,
       Log INFO (msg_signal @ BUY @ msg_at_price @ ''67000.0''),
       Send_message (Chat_env (Some ''42''))
         (new_signal_head @ format_signal_message example_runtime (example_signal BUY)) HTML
         Delivered,
       Log INFO (msg_notified @ BUY), Sleep CHECK_INTERVAL],
      running\<lparr>last_signal := Some (example_signal BUY)\<rparr>)"
proof -
  let ?gw = "example_world (Inl (NetworkError ''timed out'')) (Finite 1) (\<lambda>k. None)"
  let ?bad = "example_world (Inr [example_bar]) (Finite 1) (\<lambda>k. Some (NetworkError ''reset''))"
  let ?good = "example_world (Inr [example_bar]) (Finite 1) (\<lambda>k. None)"
  have r: "is_running running" by (simp add: running_def)
  have f: "fetch_ohlcv ?gw SYMBOL TIMEFRAME 100 = Inl (NetworkError ''timed out'')"
    by (simp add: example_world_def)
  have one: "auto_check_loop example_runtime (?gw # [?bad, ?good]) running =
        ([Log ERROR (msg_network_error @ ''timed out''), Sleep CHECK_INTERVAL]
           @ fst (auto_check_loop example_runtime [?bad, ?good] running),
         snd (auto_check_loop example_runtime [?bad, ?good] running))"
    using loop_survives_failure
            [where self = running and w = ?gw and rt = example_runtime
               and e = "NetworkError ''timed out''" and ws = "[?bad, ?good]"] r f
    by simp
  have two: "auto_check_loop example_runtime (?bad # [?good]) running =
        (snd (get_signal example_runtime ?bad)
           @ [Send_message (Chat_env (CHAT_ID example_runtime))
                (new_signal_head @ format_signal_message example_runtime (example_signal BUY))
                HTML Failed,
              Log ERROR (msg_loop_error @ str_exc (NetworkError ''reset'')), Sleep 60]
           @ fst (auto_check_loop example_runtime [?good] running),
         snd (auto_check_loop example_runtime [?good] running))"
    using loop_survives_failure
            [where self = running and w = ?bad and rt = example_runtime
               and e = "NetworkError ''reset''" and ws = "[?good]"
               and cs = "example_signal BUY"] r
    by (simp add: example_get_signal direction_changed_def running_def)
  have three: "auto_check_loop example_runtime [?good] running =
        ([Log INFO (msg_signal @ BUY @ msg_at_price @ ''67000.0''),
          Send_message (Chat_env (Some ''42''))
            (new_signal_head @ format_signal_message example_runtime (example_signal BUY)) HTML
            Delivered,
          Log INFO (msg_notified @ BUY), Sleep CHECK_INTERVAL],
         running\<lparr>last_signal := Some (example_signal BUY)\<rparr>)"
    by (simp add: auto_check_iteration_def auto_check_try_def example_get_signal
        direction_changed_def running_def new_signal_message_def example_runtime_sel)
  show ?thesis
    unfolding one two three by (simp add: example_get_signal example_runtime_sel)
qed

text \<open>
  C6 as stated does not hold. When the exchange raises a network error, the iteration
  does not end in the loop's \<^verbatim>\<open>except\<close>: its \<^verbatim>\<open>try\<close> block returns, the only log entry
  is the one \<open>get_signal\<close> writes, and the sleep is the regular one of 900 seconds, not
  60.
\<close>

theorem gateway_error_regular_sleep_counterexample:
  "auto_check_iteration example_runtime
     (example_world (Inl (NetworkError ''timed out'')) (Finite 1) (\<lambda>k. None)) running
   = ([Log ERROR (msg_network_error @ ''timed out''), Sleep 900], running)
   \<and> fst (auto_check_try example_runtime
       (example_world (Inl (NetworkError ''timed out'')) (Finite 1) (\<lambda>k. None)) running)
     = Inr ()"
  by (simp add: auto_check_iteration_def auto_check_try_def get_signal_def get_signal_try_def
      example_world_def CHECK_INTERVAL_def)

text \<open>
  C9. When the send of a change notification raises, the iteration ends in the loop's
  \<^verbatim>\<open>except\<close> and the bot is left as it was, so \<open>last_signal\<close> still holds what it held
  before. A later iteration that evaluates the same direction and whose send succeeds
  therefore calls \<^verbatim>\<open>bot.send_message\<close> for it, with a text that carries the direction,
  and only then stores it.
\<close>

theorem failed_send_keeps_last_signal:
  assumes "fst (get_signal rt w) = Inr (Some cs)" and "direction_changed self cs"
    and "send_raises w 0 = Some e"
    and "fst (get_signal rt w') = Inr (Some cs')" and "direction cs' = direction cs"
    and "send_raises w' 0 = None"
  shows "auto_check_iteration rt w self =
           (snd (get_signal rt w)
              @ [Send_message (Chat_env (CHAT_ID rt))
                   (new_signal_head @ format_signal_message rt cs) HTML Failed,
                 Log ERROR (msg_loop_error @ str_exc e), Sleep 60],
            self)
         \<and> auto_check_iteration rt w' (snd (auto_check_iteration rt w self)) =
             (snd (get_signal rt w')
                @ [Send_message (Chat_env (CHAT_ID rt))
                     (new_signal_head @ format_signal_message rt cs') HTML Delivered,
                   Log INFO (msg_notified @ direction cs'),
                   Sleep CHECK_INTERVAL],
              self\<lparr>last_signal := Some cs'\<rparr>)
         \<and> sublist (direction cs') (new_signal_head @ format_signal_message rt cs')
         \<and> sends (snd (get_signal rt w')) = []"
proof -
  have ev: "evaluated rt w = Some cs" "evaluated rt w' = Some cs'"
    using assms(1,4) by (simp_all add: evaluated_eq)
  have first: "auto_check_iteration rt w self =
           (snd (get_signal rt w)
              @ [Send_message (Chat_env (CHAT_ID rt))
                   (new_signal_head @ format_signal_message rt cs) HTML Failed,
                 Log ERROR (msg_loop_error @ str_exc e), Sleep 60],
            self)"
    by (rule iteration_send_failed [OF ev(1) assms(2,3)])
  have "direction_changed self cs'"
    using assms(2,5) by (simp add: direction_changed_iff)
  then have second: "auto_check_iteration rt w' (snd (auto_check_iteration rt w self)) =
             (snd (get_signal rt w')
                @ [Send_message (Chat_env (CHAT_ID rt))
                     (new_signal_head @ format_signal_message rt cs') HTML Delivered,
                   Log INFO (msg_notified @ direction cs'),
                   Sleep CHECK_INTERVAL],
              self\<lparr>last_signal := Some cs'\<rparr>)"
    by (simp add: first iteration_sent [OF ev(2) _ assms(6)] new_signal_message_def)
  have third: "sublist (direction cs') (new_signal_head @ format_signal_message rt cs')"
    unfolding format_signal_message_def
    by (intro sublist_here sublist_later)
  show ?thesis using first second third by simp
qed

theorem failed_send_keeps_last_signal_witness:
  "auto_check_iteration example_runtime
     (example_world (Inr [example_bar]) (Finite 1) (\<lambda>k. None))
     (snd (auto_check_iteration example_runtime
        (example_world (Inr [example_bar]) (Finite 1) (\<lambda>k. Some (NetworkError ''reset'')))
        running))
   = ([Log INFO (msg_signal @ BUY @ msg_at_price @ ''67000.0''),
       Send_message (Chat_env (Some ''42''))
         (new_signal_head @ fmt_head @ ''BTC/USDT'' @ fmt_signal @ BUY @ fmt_price
          @ ''67000.00'' @ fmt_time @ ''2024-01-01 00:00:00'') HTML Delivered,
       Log INFO (msg_notified @ BUY), Sleep CHECK_INTERVAL],
      running\<lparr>last_signal := Some (example_signal BUY)\<rparr>)"
proof -
  let ?bad = "example_world (Inr [example_bar]) (Finite 1) (\<lambda>k. Some (NetworkError ''reset''))"
  let ?good = "example_world (Inr [example_bar]) (Finite 1) (\<lambda>k. None)"
  have h1: "fst (get_signal example_runtime ?bad) = Inr (Some (example_signal BUY))"
    and h4: "fst (get_signal example_runtime ?good) = Inr (Some (example_signal BUY))"
    by (simp_all add: example_get_signal)
  have h2: "direction_changed running (example_signal BUY)"
    by (simp add: direction_changed_def running_def)
  have h3: "send_raises ?bad 0 = Some (NetworkError ''reset'')"
    and h6: "send_raises ?good 0 = None"
    by simp_all
  have "auto_check_iteration example_runtime ?good
          (snd (auto_check_iteration example_runtime ?bad running)) =
             (snd (get_signal example_runtime ?good)
                @ [Send_message (Chat_env (CHAT_ID example_runtime))
                     (new_signal_head @ format_signal_message example_runtime (example_signal BUY))
                     HTML Delivered,
                   Log INFO (msg_notified @ direction (example_signal BUY)),
                   Sleep CHECK_INTERVAL],
              running\<lparr>last_signal := Some (example_signal BUY)\<rparr>)"
    using failed_send_keeps_last_signal [OF h1 h2 h3 h4 refl h6] by blast
  then show ?thesis
    by (simp add: example_get_signal example_runtime_sel format_signal_message_def SYMBOL_def
        example_signal_def)
qed

subsection \<open>The command handlers\<close>

text \<open>
  C8. The text \<^verbatim>\<open>info\<close> replies with is, for every state of the bot, the labels with
  the symbol \<^verbatim>\<open>BTC/USDT\<close>, the timeframe \<^verbatim>\<open>15m\<close>, the check interval in minutes
  (15), the running status (the green circle and the word for "active", or the red
  circle and the word for "stopped"), and then the direction of the stored signal when
  there is one and the two words for "no data" when there is none. The text is given
  byte by byte. Each of these is a part of it, and the placeholder is neither of the
  two directions.
\<close>

theorem info_reply_contents:
  "(\<exists>out. snd (info w message self) = [Reply_to message (info_text self) HTML out])
   \<and> info_text self =
       ([CHR 0xE2, CHR 0x84, CHR 0xB9, CHR 0xEF, CHR 0xB8, CHR 0x8F] @ '' <b>'' @
        [CHR 0xD0, CHR 0x98, CHR 0xD0, CHR 0xBD, CHR 0xD1, CHR 0x84, CHR 0xD0, CHR 0xBE] @
        [CHR 0xD1, CHR 0x80, CHR 0xD0, CHR 0xBC, CHR 0xD0, CHR 0xB0, CHR 0xD1, CHR 0x86] @
        [CHR 0xD0, CHR 0xB8, CHR 0xD1, CHR 0x8F] @ '' '' @ [CHR 0xD0, CHR 0xBE] @ '' '' @
        [CHR 0xD0, CHR 0xB1, CHR 0xD0, CHR 0xBE, CHR 0xD1, CHR 0x82, CHR 0xD0, CHR 0xB5] @
        ''</b>'' @
        [CHR 0x0A, CHR 0x0A, CHR 0xD0, CHR 0xA1, CHR 0xD0, CHR 0xB8, CHR 0xD0, CHR 0xBC] @
        [CHR 0xD0, CHR 0xB2, CHR 0xD0, CHR 0xBE, CHR 0xD0, CHR 0xBB] @ '': <code>'')
       @ ''BTC/USDT''
       @ (''</code>'' @
          [CHR 0x0A, CHR 0xD0, CHR 0xA2, CHR 0xD0, CHR 0xB0, CHR 0xD0, CHR 0xB9, CHR 0xD0] @
          [CHR 0xBC, CHR 0xD1, CHR 0x84, CHR 0xD1, CHR 0x80, CHR 0xD0, CHR 0xB5, CHR 0xD0] @
          [CHR 0xB9, CHR 0xD0, CHR 0xBC] @ '': <code>'')
       @ ''15m''
       @ (''</code>'' @
          [CHR 0x0A, CHR 0xD0, CHR 0x98, CHR 0xD0, CHR 0xBD, CHR 0xD1, CHR 0x82, CHR 0xD0] @
          [CHR 0xB5, CHR 0xD1, CHR 0x80, CHR 0xD0, CHR 0xB2, CHR 0xD0, CHR 0xB0, CHR 0xD0] @
          [CHR 0xBB] @ '' '' @
          [CHR 0xD0, CHR 0xBF, CHR 0xD1, CHR 0x80, CHR 0xD0, CHR 0xBE, CHR 0xD0, CHR 0xB2] @
          [CHR 0xD0, CHR 0xB5, CHR 0xD1, CHR 0x80, CHR 0xD0, CHR 0xBA, CHR 0xD0, CHR 0xB8] @
          '': <code>'')
       @ ''15''
       @ ('' '' @ [CHR 0xD0, CHR 0xBC, CHR 0xD0, CHR 0xB8, CHR 0xD0, CHR 0xBD, CHR 0xD1, CHR 0x83] @
          [CHR 0xD1, CHR 0x82] @ ''</code>'' @
          [CHR 0x0A, CHR 0xD0, CHR 0xA1, CHR 0xD1, CHR 0x82, CHR 0xD0, CHR 0xB0, CHR 0xD1] @
          [CHR 0x82, CHR 0xD1, CHR 0x83, CHR 0xD1, CHR 0x81] @ '': '')
       @ (if is_running self
          then ([CHR 0xF0, CHR 0x9F, CHR 0x9F, CHR 0xA2] @ '' '' @
                [CHR 0xD0, CHR 0x90, CHR 0xD0, CHR 0xBA, CHR 0xD1, CHR 0x82, CHR 0xD0, CHR 0xB8] @
                [CHR 0xD0, CHR 0xB2, CHR 0xD0, CHR 0xB5, CHR 0xD0, CHR 0xBD])
          else ([CHR 0xF0, CHR 0x9F, CHR 0x94, CHR 0xB4] @ '' '' @
                [CHR 0xD0, CHR 0x9E, CHR 0xD1, CHR 0x81, CHR 0xD1, CHR 0x82, CHR 0xD0, CHR 0xB0] @
                [CHR 0xD0, CHR 0xBD, CHR 0xD0, CHR 0xBE, CHR 0xD0, CHR 0xB2, CHR 0xD0, CHR 0xBB] @
                [CHR 0xD0, CHR 0xB5, CHR 0xD0, CHR 0xBD]))
       @ ([CHR 0x0A, CHR 0xD0, CHR 0x9F, CHR 0xD0, CHR 0xBE, CHR 0xD1, CHR 0x81, CHR 0xD0] @
          [CHR 0xBB, CHR 0xD0, CHR 0xB5, CHR 0xD0, CHR 0xB4, CHR 0xD0, CHR 0xBD, CHR 0xD0] @
          [CHR 0xB8, CHR 0xD0, CHR 0xB9] @ '' '' @
          [CHR 0xD1, CHR 0x81, CHR 0xD0, CHR 0xB8, CHR 0xD0, CHR 0xB3, CHR 0xD0, CHR 0xBD] @
          [CHR 0xD0, CHR 0xB0, CHR 0xD0, CHR 0xBB] @ '': <code>'')
       @ (case last_signal self of
            Some s \<Rightarrow> direction s
          | None \<Rightarrow> ([CHR 0xD0, CHR 0x9D, CHR 0xD0, CHR 0xB5, CHR 0xD1, CHR 0x82] @ '' '' @
                    [CHR 0xD0, CHR 0xB4, CHR 0xD0, CHR 0xB0, CHR 0xD0, CHR 0xBD, CHR 0xD0, CHR 0xBD] @
                    [CHR 0xD1, CHR 0x8B, CHR 0xD1, CHR 0x85]))
       @ ''</code>''
   \<and> sublist ''BTC/USDT'' (info_text self)
   \<and> sublist ''15m'' (info_text self)
   \<and> sublist (''15'' @ ('' '' @ [CHR 0xD0, CHR 0xBC, CHR 0xD0, CHR 0xB8, CHR 0xD0, CHR 0xBD, CHR 0xD1, CHR 0x83] @
                   [CHR 0xD1, CHR 0x82] @ ''</code>'' @
                   [CHR 0x0A, CHR 0xD0, CHR 0xA1, CHR 0xD1, CHR 0x82, CHR 0xD0, CHR 0xB0, CHR 0xD1] @
                   [CHR 0x82, CHR 0xD1, CHR 0x83, CHR 0xD1, CHR 0x81] @ '': '')) (info_text self)
   \<and> sublist (if is_running self then txt_active else txt_inactive) (info_text self)
   \<and> sublist (case last_signal self of Some s \<Rightarrow> direction s | None \<Rightarrow> txt_no_data)
        (info_text self)
   \<and> txt_active = ([CHR 0xF0, CHR 0x9F, CHR 0x9F, CHR 0xA2] @ '' '' @
                 [CHR 0xD0, CHR 0x90, CHR 0xD0, CHR 0xBA, CHR 0xD1, CHR 0x82, CHR 0xD0, CHR 0xB8] @
                 [CHR 0xD0, CHR 0xB2, CHR 0xD0, CHR 0xB5, CHR 0xD0, CHR 0xBD])
   \<and> txt_inactive = ([CHR 0xF0, CHR 0x9F, CHR 0x94, CHR 0xB4] @ '' '' @
                   [CHR 0xD0, CHR 0x9E, CHR 0xD1, CHR 0x81, CHR 0xD1, CHR 0x82, CHR 0xD0, CHR 0xB0] @
                   [CHR 0xD0, CHR 0xBD, CHR 0xD0, CHR 0xBE, CHR 0xD0, CHR 0xB2, CHR 0xD0, CHR 0xBB] @
                   [CHR 0xD0, CHR 0xB5, CHR 0xD0, CHR 0xBD])
   \<and> txt_no_data = ([CHR 0xD0, CHR 0x9D, CHR 0xD0, CHR 0xB5, CHR 0xD1, CHR 0x82] @ '' '' @
                  [CHR 0xD0, CHR 0xB4, CHR 0xD0, CHR 0xB0, CHR 0xD0, CHR 0xBD, CHR 0xD0, CHR 0xBD] @
                  [CHR 0xD1, CHR 0x8B, CHR 0xD1, CHR 0x85])
   \<and> txt_no_data \<noteq> BUY \<and> txt_no_data \<noteq> SELL \<and> txt_active \<noteq> txt_inactive"
proof -
  have reply: "\<exists>out. snd (info w message self) = [Reply_to message (info_text self) HTML out]"
    by (cases "send_raises w 0") (simp_all add: info_def reply_to_def)
  have fifteen: "str_nat (CHECK_INTERVAL div 60) = ''15''"
    by (simp add: CHECK_INTERVAL_def str_nat.simps)
  have eq: "info_text self =
       ([CHR 0xE2, CHR 0x84, CHR 0xB9, CHR 0xEF, CHR 0xB8, CHR 0x8F] @ '' <b>'' @
        [CHR 0xD0, CHR 0x98, CHR 0xD0, CHR 0xBD, CHR 0xD1, CHR 0x84, CHR 0xD0, CHR 0xBE] @
        [CHR 0xD1, CHR 0x80, CHR 0xD0, CHR 0xBC, CHR 0xD0, CHR 0xB0, CHR 0xD1, CHR 0x86] @
        [CHR 0xD0, CHR 0xB8, CHR 0xD1, CHR 0x8F] @ '' '' @ [CHR 0xD0, CHR 0xBE] @ '' '' @
        [CHR 0xD0, CHR 0xB1, CHR 0xD0, CHR 0xBE, CHR 0xD1, CHR 0x82, CHR 0xD0, CHR 0xB5] @
        ''</b>'' @
        [CHR 0x0A, CHR 0x0A, CHR 0xD0, CHR 0xA1, CHR 0xD0, CHR 0xB8, CHR 0xD0, CHR 0xBC] @
        [CHR 0xD0, CHR 0xB2, CHR 0xD0, CHR 0xBE, CHR 0xD0, CHR 0xBB] @ '': <code>'')
       @ ''BTC/USDT''
       @ (''</code>'' @
          [CHR 0x0A, CHR 0xD0, CHR 0xA2, CHR 0xD0, CHR 0xB0, CHR 0xD0, CHR 0xB9, CHR 0xD0] @
          [CHR 0xBC, CHR 0xD1, CHR 0x84, CHR 0xD1, CHR 0x80, CHR 0xD0, CHR 0xB5, CHR 0xD0] @
          [CHR 0xB9, CHR 0xD0, CHR 0xBC] @ '': <code>'')
       @ ''15m''
       @ (''</code>'' @
          [CHR 0x0A, CHR 0xD0, CHR 0x98, CHR 0xD0, CHR 0xBD, CHR 0xD1, CHR 0x82, CHR 0xD0] @
          [CHR 0xB5, CHR 0xD1, CHR 0x80, CHR 0xD0, CHR 0xB2, CHR 0xD0, CHR 0xB0, CHR 0xD0] @
          [CHR 0xBB] @ '' '' @
          [CHR 0xD0, CHR 0xBF, CHR 0xD1, CHR 0x80, CHR 0xD0, CHR 0xBE, CHR 0xD0, CHR 0xB2] @
          [CHR 0xD0, CHR 0xB5, CHR 0xD1, CHR 0x80, CHR 0xD0, CHR 0xBA, CHR 0xD0, CHR 0xB8] @
          '': <code>'')
       @ ''15''
       @ ('' '' @ [CHR 0xD0, CHR 0xBC, CHR 0xD0, CHR 0xB8, CHR 0xD0, CHR 0xBD, CHR 0xD1, CHR 0x83] @
          [CHR 0xD1, CHR 0x82] @ ''</code>'' @
          [CHR 0x0A, CHR 0xD0, CHR 0xA1, CHR 0xD1, CHR 0x82, CHR 0xD0, CHR 0xB0, CHR 0xD1] @
          [CHR 0x82, CHR 0xD1, CHR 0x83, CHR 0xD1, CHR 0x81] @ '': '')
       @ (if is_running self
          then ([CHR 0xF0, CHR 0x9F, CHR 0x9F, CHR 0xA2] @ '' '' @
                [CHR 0xD0, CHR 0x90, CHR 0xD0, CHR 0xBA, CHR 0xD1, CHR 0x82, CHR 0xD0, CHR 0xB8] @
                [CHR 0xD0, CHR 0xB2, CHR 0xD0, CHR 0xB5, CHR 0xD0, CHR 0xBD])
          else ([CHR 0xF0, CHR 0x9F, CHR 0x94, CHR 0xB4] @ '' '' @
                [CHR 0xD0, CHR 0x9E, CHR 0xD1, CHR 0x81, CHR 0xD1, CHR 0x82, CHR 0xD0, CHR 0xB0] @
                [CHR 0xD0, CHR 0xBD, CHR 0xD0, CHR 0xBE, CHR 0xD0, CHR 0xB2, CHR 0xD0, CHR 0xBB] @
                [CHR 0xD0, CHR 0xB5, CHR 0xD0, CHR 0xBD]))
       @ ([CHR 0x0A, CHR 0xD0, CHR 0x9F, CHR 0xD0, CHR 0xBE, CHR 0xD1, CHR 0x81, CHR 0xD0] @
          [CHR 0xBB, CHR 0xD0, CHR 0xB5, CHR 0xD0, CHR 0xB4, CHR 0xD0, CHR 0xBD, CHR 0xD0] @
          [CHR 0xB8, CHR 0xD0, CHR 0xB9] @ '' '' @
          [CHR 0xD1, CHR 0x81, CHR 0xD0, CHR 0xB8, CHR 0xD0, CHR 0xB3, CHR 0xD0, CHR 0xBD] @
          [CHR 0xD0, CHR 0xB0, CHR 0xD0, CHR 0xBB] @ '': <code>'')
       @ (case last_signal self of
            Some s \<Rightarrow> direction s
          | None \<Rightarrow> ([CHR 0xD0, CHR 0x9D, CHR 0xD0, CHR 0xB5, CHR 0xD1, CHR 0x82] @ '' '' @
                    [CHR 0xD0, CHR 0xB4, CHR 0xD0, CHR 0xB0, CHR 0xD0, CHR 0xBD, CHR 0xD0, CHR 0xBD] @
                    [CHR 0xD1, CHR 0x8B, CHR 0xD1, CHR 0x85]))
       @ ''</code>''"
    unfolding info_text_def fifteen
    by (cases "last_signal self")
       (simp_all add: SYMBOL_def TIMEFRAME_def info_1_def info_2_def info_3_def info_4_def
          info_5_def info_6_def txt_active_def txt_inactive_def txt_no_data_def)
  have s1: "sublist ''BTC/USDT'' (info_text self)"
    unfolding eq by (intro sublist_here sublist_later)
  have s2: "sublist ''15m'' (info_text self)"
    unfolding eq by (intro sublist_here sublist_later)
  have s3: "sublist (''15'' @ ('' '' @ [CHR 0xD0, CHR 0xBC, CHR 0xD0, CHR 0xB8, CHR 0xD0, CHR 0xBD, CHR 0xD1, CHR 0x83] @
                   [CHR 0xD1, CHR 0x82] @ ''</code>'' @
                   [CHR 0x0A, CHR 0xD0, CHR 0xA1, CHR 0xD1, CHR 0x82, CHR 0xD0, CHR 0xB0, CHR 0xD1] @
                   [CHR 0x82, CHR 0xD1, CHR 0x83, CHR 0xD1, CHR 0x81] @ '': '')) (info_text self)"
    unfolding eq by (intro sublist_here2 sublist_later)
  have s4: "sublist (if is_running self then txt_active else txt_inactive) (info_text self)"
    unfolding info_text_def by (intro sublist_here sublist_later)
  have s5: "sublist (case last_signal self of Some s \<Rightarrow> direction s | None \<Rightarrow> txt_no_data)
        (info_text self)"
    unfolding info_text_def by (intro sublist_here sublist_later)
  have lit: "txt_active = ([CHR 0xF0, CHR 0x9F, CHR 0x9F, CHR 0xA2] @ '' '' @
                 [CHR 0xD0, CHR 0x90, CHR 0xD0, CHR 0xBA, CHR 0xD1, CHR 0x82, CHR 0xD0, CHR 0xB8] @
                 [CHR 0xD0, CHR 0xB2, CHR 0xD0, CHR 0xB5, CHR 0xD0, CHR 0xBD])
   \<and> txt_inactive = ([CHR 0xF0, CHR 0x9F, CHR 0x94, CHR 0xB4] @ '' '' @
                   [CHR 0xD0, CHR 0x9E, CHR 0xD1, CHR 0x81, CHR 0xD1, CHR 0x82, CHR 0xD0, CHR 0xB0] @
                   [CHR 0xD0, CHR 0xBD, CHR 0xD0, CHR 0xBE, CHR 0xD0, CHR 0xB2, CHR 0xD0, CHR 0xBB] @
                   [CHR 0xD0, CHR 0xB5, CHR 0xD0, CHR 0xBD])
   \<and> txt_no_data = ([CHR 0xD0, CHR 0x9D, CHR 0xD0, CHR 0xB5, CHR 0xD1, CHR 0x82] @ '' '' @
                  [CHR 0xD0, CHR 0xB4, CHR 0xD0, CHR 0xB0, CHR 0xD0, CHR 0xBD, CHR 0xD0, CHR 0xBD] @
                  [CHR 0xD1, CHR 0x8B, CHR 0xD1, CHR 0x85])"
    by (simp add: txt_active_def txt_inactive_def txt_no_data_def)
  have diff: "txt_no_data \<noteq> BUY" "txt_no_data \<noteq> SELL" "txt_active \<noteq> txt_inactive"
    by (simp_all add: txt_no_data_def BUY_def SELL_def txt_active_def txt_inactive_def)
  show ?thesis
    using reply eq s1 s2 s3 s4 s5 lit diff by blast
qed

theorem info_reply_contents_witness:
  "sublist SELL (info_text \<lparr>last_signal = Some (example_signal SELL), is_running = True\<rparr>)
   \<and> sublist txt_active (info_text \<lparr>last_signal = Some (example_signal SELL), is_running = True\<rparr>)
   \<and> sublist txt_no_data (info_text \<lparr>last_signal = None, is_running = False\<rparr>)
   \<and> sublist txt_inactive (info_text \<lparr>last_signal = None, is_running = False\<rparr>)
   \<and> txt_no_data \<noteq> BUY \<and> txt_no_data \<noteq> SELL"
proof -
  note a = info_reply_contents
          [of "example_world (Inr []) NaN (\<lambda>k. None)" "\<lparr>chat_id = 7, from_user_id = 9\<rparr>"
              "\<lparr>last_signal = Some (example_signal SELL), is_running = True\<rparr>"]
  note b = info_reply_contents
          [of "example_world (Inr []) NaN (\<lambda>k. None)" "\<lparr>chat_id = 7, from_user_id = 9\<rparr>"
              "\<lparr>last_signal = None, is_running = False\<rparr>"]
  note a_status = a [THEN conjunct2, THEN conjunct2, THEN conjunct2, THEN conjunct2,
                     THEN conjunct2, THEN conjunct1]
  note a_last = a [THEN conjunct2, THEN conjunct2, THEN conjunct2, THEN conjunct2,
                   THEN conjunct2, THEN conjunct2, THEN conjunct1]
  note b_status = b [THEN conjunct2, THEN conjunct2, THEN conjunct2, THEN conjunct2,
                     THEN conjunct2, THEN conjunct1]
  note b_last = b [THEN conjunct2, THEN conjunct2, THEN conjunct2, THEN conjunct2,
                   THEN conjunct2, THEN conjunct2, THEN conjunct1]
  note differ = b [THEN conjunct2, THEN conjunct2, THEN conjunct2, THEN conjunct2,
                   THEN conjunct2, THEN conjunct2, THEN conjunct2, THEN conjunct2,
                   THEN conjunct2, THEN conjunct2]
  have "sublist SELL (info_text \<lparr>last_signal = Some (example_signal SELL), is_running = True\<rparr>)"
    using a_last by (simp only: TradingBot.simps option.case example_signal_direction)
  moreover
  have "sublist txt_active (info_text \<lparr>last_signal = Some (example_signal SELL), is_running = True\<rparr>)"
    using a_status by (simp only: TradingBot.simps if_True)
  moreover
  have "sublist txt_no_data (info_text \<lparr>last_signal = None, is_running = False\<rparr>)"
    using b_last by (simp only: TradingBot.simps option.case)
  moreover
  have "sublist txt_inactive (info_text \<lparr>last_signal = None, is_running = False\<rparr>)"
    using b_status by (simp only: TradingBot.simps if_False)
  moreover have "txt_no_data \<noteq> BUY" and "txt_no_data \<noteq> SELL"
    using differ by (simp_all only: simp_thms)
  ultimately show ?thesis by (intro conjI)
qed

text \<open>
  C2, as the code has it. In \<^verbatim>\<open>status\<close>, an exception of the \<^verbatim>\<open>try\<close> block (raised
  by the first send or by the answer's send; evaluation and formatting raise nothing) is
  caught and logged, and an error reply, the cross mark and "an error occurred:" followed
  by the text of the exception, is sent to the requesting chat. The handler raises
  exactly when the send of that error reply raises, and then what that send raises. In
  \<^verbatim>\<open>start\<close>, \<^verbatim>\<open>info\<close> and \<^verbatim>\<open>help_command\<close> formatting and state access raise nothing:
  these handlers raise exactly when their reply's own send raises.
\<close>

theorem status_reports_errors:
  "(send_raises w 0 = Some e \<longrightarrow>
      status rt w message =
        ((case send_raises w 1 of None \<Rightarrow> Inr () | Some e' \<Rightarrow> Inl e'),
         [Send_message (Chat_id (chat_id message)) txt_fetching Plain Failed,
          Log ERROR (msg_status_error @ str_exc e),
          Send_message (Chat_id (chat_id message)) (txt_error @ str_exc e) Plain
            (if send_raises w 1 = None then Delivered else Failed)]))
   \<and> (send_raises w 0 = None \<and> send_raises w 1 = Some e \<longrightarrow>
      status rt w message =
        ((case send_raises w 2 of None \<Rightarrow> Inr () | Some e' \<Rightarrow> Inl e'),
         [Send_message (Chat_id (chat_id message)) txt_fetching Plain Delivered]
           @ snd (get_signal rt w)
           @ [case fst (get_signal rt w) of
                Inr (Some signal_data) \<Rightarrow>
                  Send_message (Chat_id (chat_id message))
                    (format_signal_message rt signal_data) HTML Failed
              | _ \<Rightarrow> Send_message (Chat_id (chat_id message)) txt_unavailable Plain Failed,
              Log ERROR (msg_status_error @ str_exc e),
              Send_message (Chat_id (chat_id message)) (txt_error @ str_exc e) Plain
                (if send_raises w 2 = None then Delivered else Failed)]))
   \<and> (send_raises w 0 = None \<and> send_raises w 1 = None \<longrightarrow>
      status rt w message =
        (Inr (),
         [Send_message (Chat_id (chat_id message)) txt_fetching Plain Delivered]
           @ snd (get_signal rt w)
           @ [case fst (get_signal rt w) of
                Inr (Some signal_data) \<Rightarrow>
                  Send_message (Chat_id (chat_id message))
                    (format_signal_message rt signal_data) HTML Delivered
              | _ \<Rightarrow> Send_message (Chat_id (chat_id message)) txt_unavailable Plain Delivered]))
   \<and> (send_raises w 0 = Some e \<longrightarrow>
      start w message = (Inl e, [Reply_to message welcome_text HTML Failed])
      \<and> info w message self = (Inl e, [Reply_to message (info_text self) HTML Failed])
      \<and> help_command w message = (Inl e, [Reply_to message help_text HTML Failed]))
   \<and> (send_raises w 0 = None \<longrightarrow>
      start w message =
        (Inr (),
         [Reply_to message welcome_text HTML Delivered,
          Log INFO (msg_user @ str_int (from_user_id message) @ msg_user_started)])
      \<and> info w message self = (Inr (), [Reply_to message (info_text self) HTML Delivered])
      \<and> help_command w message = (Inr (), [Reply_to message help_text HTML Delivered]))
   \<and> txt_error = ([CHR 0xE2, CHR 0x9D, CHR 0x8C] @ '' '' @
                 [CHR 0xD0, CHR 0x9F, CHR 0xD1, CHR 0x80, CHR 0xD0, CHR 0xBE, CHR 0xD0, CHR 0xB8] @
                 [CHR 0xD0, CHR 0xB7, CHR 0xD0, CHR 0xBE, CHR 0xD1, CHR 0x88, CHR 0xD0, CHR 0xBB] @
                 [CHR 0xD0, CHR 0xB0] @ '' '' @
                 [CHR 0xD0, CHR 0xBE, CHR 0xD1, CHR 0x88, CHR 0xD0, CHR 0xB8, CHR 0xD0, CHR 0xB1] @
                 [CHR 0xD0, CHR 0xBA, CHR 0xD0, CHR 0xB0] @ '': '')"
proof -
  obtain l m where g: "get_signal rt w = (Inr (evaluated rt w), [Log l m])"
    using get_signal_evaluated by blast
  have ack: "send_raises w 0 = Some e \<longrightarrow>
      status rt w message =
        ((case send_raises w 1 of None \<Rightarrow> Inr () | Some e' \<Rightarrow> Inl e'),
         [Send_message (Chat_id (chat_id message)) txt_fetching Plain Failed,
          Log ERROR (msg_status_error @ str_exc e),
          Send_message (Chat_id (chat_id message)) (txt_error @ str_exc e) Plain
            (if send_raises w 1 = None then Delivered else Failed)])"
    by (cases "send_raises w 1")
       (simp_all add: status_def status_try_def send_message_def calls_def)
  have answer: "send_raises w 0 = None \<and> send_raises w 1 = Some e \<longrightarrow>
      status rt w message =
        ((case send_raises w 2 of None \<Rightarrow> Inr () | Some e' \<Rightarrow> Inl e'),
         [Send_message (Chat_id (chat_id message)) txt_fetching Plain Delivered]
           @ snd (get_signal rt w)
           @ [case fst (get_signal rt w) of
                Inr (Some signal_data) \<Rightarrow>
                  Send_message (Chat_id (chat_id message))
                    (format_signal_message rt signal_data) HTML Failed
              | _ \<Rightarrow> Send_message (Chat_id (chat_id message)) txt_unavailable Plain Failed,
              Log ERROR (msg_status_error @ str_exc e),
              Send_message (Chat_id (chat_id message)) (txt_error @ str_exc e) Plain
                (if send_raises w 2 = None then Delivered else Failed)])"
    by (cases "evaluated rt w"; cases "send_raises w 2")
       (simp_all add: status_def status_try_def send_message_def calls_def numeral_2_eq_2 g)
  have fine: "send_raises w 0 = None \<and> send_raises w 1 = None \<longrightarrow>
      status rt w message =
        (Inr (),
         [Send_message (Chat_id (chat_id message)) txt_fetching Plain Delivered]
           @ snd (get_signal rt w)
           @ [case fst (get_signal rt w) of
                Inr (Some signal_data) \<Rightarrow>
                  Send_message (Chat_id (chat_id message))
                    (format_signal_message rt signal_data) HTML Delivered
              | _ \<Rightarrow> Send_message (Chat_id (chat_id message)) txt_unavailable Plain Delivered])"
    by (cases "evaluated rt w")
       (simp_all add: status_def status_try_def send_message_def g)
  have others_fail: "send_raises w 0 = Some e \<longrightarrow>
      start w message = (Inl e, [Reply_to message welcome_text HTML Failed])
      \<and> info w message self = (Inl e, [Reply_to message (info_text self) HTML Failed])
      \<and> help_command w message = (Inl e, [Reply_to message help_text HTML Failed])"
    by (simp add: start_def info_def help_command_def reply_to_def)
  have others_ok: "send_raises w 0 = None \<longrightarrow>
      start w message =
        (Inr (),
         [Reply_to message welcome_text HTML Delivered,
          Log INFO (msg_user @ str_int (from_user_id message) @ msg_user_started)])
      \<and> info w message self = (Inr (), [Reply_to message (info_text self) HTML Delivered])
      \<and> help_command w message = (Inr (), [Reply_to message help_text HTML Delivered])"
    by (simp add: start_def info_def help_command_def reply_to_def)
  have lit: "txt_error = ([CHR 0xE2, CHR 0x9D, CHR 0x8C] @ '' '' @
                 [CHR 0xD0, CHR 0x9F, CHR 0xD1, CHR 0x80, CHR 0xD0, CHR 0xBE, CHR 0xD0, CHR 0xB8] @
                 [CHR 0xD0, CHR 0xB7, CHR 0xD0, CHR 0xBE, CHR 0xD1, CHR 0x88, CHR 0xD0, CHR 0xBB] @
                 [CHR 0xD0, CHR 0xB0] @ '' '' @
                 [CHR 0xD0, CHR 0xBE, CHR 0xD1, CHR 0x88, CHR 0xD0, CHR 0xB8, CHR 0xD0, CHR 0xB1] @
                 [CHR 0xD0, CHR 0xBA, CHR 0xD0, CHR 0xB0] @ '': '')"
    by (simp add: txt_error_def)
  show ?thesis
    using ack answer fine others_fail others_ok lit by blast
qed

theorem status_reports_errors_witness:
  "status example_runtime
     (example_world (Inr []) NaN (\<lambda>k. if k = 0 then Some (NetworkError ''reset'') else None))
     \<lparr>chat_id = 7, from_user_id = 9\<rparr>
   = (Inr (),
      [Send_message (Chat_id 7) txt_fetching Plain Failed,
       Log ERROR (msg_status_error @ ''reset''),
       Send_message (Chat_id 7) (txt_error @ ''reset'') Plain Delivered])
   \<and> status example_runtime
     (example_world (Inr []) NaN (\<lambda>k. if k = 1 then Some (NetworkError ''reset'') else None))
     \<lparr>chat_id = 7, from_user_id = 9\<rparr>
   = (Inr (),
      [Send_message (Chat_id 7) txt_fetching Plain Delivered,
       Log WARNING msg_empty_data,
       Send_message (Chat_id 7) txt_unavailable Plain Failed,
       Log ERROR (msg_status_error @ ''reset''),
       Send_message (Chat_id 7) (txt_error @ ''reset'') Plain Delivered])
   \<and> status example_runtime
     (example_world (Inr [example_bar]) (Finite 1) (\<lambda>k. None))
     \<lparr>chat_id = 7, from_user_id = 9\<rparr>
   = (Inr (),
      [Send_message (Chat_id 7) txt_fetching Plain Delivered,
       Log INFO (msg_signal @ BUY @ msg_at_price @ ''67000.0''),
       Send_message (Chat_id 7) (format_signal_message example_runtime (example_signal BUY))
         HTML Delivered])
   \<and> help_command (example_world (Inr []) NaN (\<lambda>k. None)) \<lparr>chat_id = 7, from_user_id = 9\<rparr>
   = (Inr (), [Reply_to \<lparr>chat_id = 7, from_user_id = 9\<rparr> help_text HTML Delivered])"
proof -
  let ?m = "\<lparr>chat_id = 7, from_user_id = 9\<rparr>"
  have empty: "get_signal example_runtime (example_world (Inr []) NaN s)
                 = (Inr None, [Log WARNING msg_empty_data])" for s
    by (simp add: get_signal_def get_signal_try_def example_world_def)
  have "status example_runtime
     (example_world (Inr []) NaN (\<lambda>k. if k = 0 then Some (NetworkError ''reset'') else None)) ?m
   = (Inr (),
      [Send_message (Chat_id 7) txt_fetching Plain Failed,
       Log ERROR (msg_status_error @ ''reset''),
       Send_message (Chat_id 7) (txt_error @ ''reset'') Plain Delivered])"
    using status_reports_errors
          [where w = "example_world (Inr []) NaN
                        (\<lambda>k. if k = 0 then Some (NetworkError ''reset'') else None)"
             and e = "NetworkError ''reset''" and rt = example_runtime and message = ?m]
    by simp
  moreover have "status example_runtime
     (example_world (Inr []) NaN (\<lambda>k. if k = 1 then Some (NetworkError ''reset'') else None)) ?m
   = (Inr (),
      [Send_message (Chat_id 7) txt_fetching Plain Delivered,
       Log WARNING msg_empty_data,
       Send_message (Chat_id 7) txt_unavailable Plain Failed,
       Log ERROR (msg_status_error @ ''reset''),
       Send_message (Chat_id 7) (txt_error @ ''reset'') Plain Delivered])"
    using status_reports_errors
          [where w = "example_world (Inr []) NaN
                        (\<lambda>k. if k = 1 then Some (NetworkError ''reset'') else None)"
             and e = "NetworkError ''reset''" and rt = example_runtime and message = ?m]
    by (simp add: empty)
  moreover have "status example_runtime
     (example_world (Inr [example_bar]) (Finite 1) (\<lambda>k. None)) ?m
   = (Inr (),
      [Send_message (Chat_id 7) txt_fetching Plain Delivered,
       Log INFO (msg_signal @ BUY @ msg_at_price @ ''67000.0''),
       Send_message (Chat_id 7) (format_signal_message example_runtime (example_signal BUY))
         HTML Delivered])"
    using status_reports_errors
          [where w = "example_world (Inr [example_bar]) (Finite 1) (\<lambda>k. None)"
             and rt = example_runtime and message = ?m]
    by (simp add: example_get_signal)
  moreover have "help_command (example_world (Inr []) NaN (\<lambda>k. None)) ?m
   = (Inr (), [Reply_to ?m help_text HTML Delivered])"
    using status_reports_errors
          [where w = "example_world (Inr []) NaN (\<lambda>k. None)" and message = ?m]
    by simp
  ultimately show ?thesis by blast
qed

text \<open>
  C2 as stated does not hold. When Telegram is unreachable, the reply of \<^verbatim>\<open>info\<close>
  raises and the exception leaves the handler: nothing catches it and no error reply is
  made. In \<^verbatim>\<open>status\<close> the exception of the first send is caught, but the send of the
  error reply raises in turn and leaves the handler; no message reaches the chat.
\<close>

theorem handler_error_escapes_counterexample:
  "info (example_world (Inr []) NaN (\<lambda>k. Some (NetworkError ''reset'')))
     \<lparr>chat_id = 7, from_user_id = 9\<rparr> init
   = (Inl (NetworkError ''reset''),
      [Reply_to \<lparr>chat_id = 7, from_user_id = 9\<rparr> (info_text init) HTML Failed])
   \<and> status example_runtime (example_world (Inr []) NaN (\<lambda>k. Some (NetworkError ''reset'')))
     \<lparr>chat_id = 7, from_user_id = 9\<rparr>
   = (Inl (NetworkError ''reset''),
      [Send_message (Chat_id 7) txt_fetching Plain Failed,
       Log ERROR (msg_status_error @ ''reset''),
       Send_message (Chat_id 7) (txt_error @ ''reset'') Plain Failed])"
  by (simp add: info_def reply_to_def status_def status_try_def send_message_def calls_def)

subsection \<open>Startup\<close>

lemma main_starts:
  "\<exists>es. fst (snd (main rt w trading_bot)) = [Log INFO msg_launching, Thread_start] @ es"
  by (cases "send_raises w 0"; cases "polling w"; cases "send_raises w 1")
     (simp_all add: main_def main_except_def send_message_def stop_def)

text \<open>
  C7. When \<^verbatim>\<open>TELEGRAM_TOKEN\<close> or \<^verbatim>\<open>TELEGRAM_CHAT_ID\<close> is unset or empty, the module
  raises \<^verbatim>\<open>ValueError\<close> before it has any effect: no thread is started, no listener,
  nothing is sent, and no \<^verbatim>\<open>TradingBot\<close> exists. When both are set and not empty,
  the validation lets the run go on to the construction of the clients; what happens
  then is what the constructors and the main block do, and when the constructors return
  the main block runs and starts by launching the loop's thread.
\<close>

theorem startup_needs_both_secrets:
  "(getenv rt ''TELEGRAM_TOKEN'' = None \<or> getenv rt ''TELEGRAM_TOKEN'' = Some []
      \<or> getenv rt ''TELEGRAM_CHAT_ID'' = None \<or> getenv rt ''TELEGRAM_CHAT_ID'' = Some [] \<longrightarrow>
      module_level rt w = (Inl (ValueError msg_env_missing), [], None))
   \<and> (getenv rt ''TELEGRAM_TOKEN'' = Some t \<and> t \<noteq> []
      \<and> getenv rt ''TELEGRAM_CHAT_ID'' = Some c \<and> c \<noteq> [] \<longrightarrow>
      module_level rt w =
        (case telebot_TeleBot rt (Some t) of
           Some e \<Rightarrow> (Inl e, [], None)
         | None \<Rightarrow>
             (case ccxt_binance rt of
                Some e \<Rightarrow> (Inl e, [], None)
              | None \<Rightarrow>
                  (fst (main rt w init), fst (snd (main rt w init)),
                   Some (snd (snd (main rt w init)))))))
   \<and> (getenv rt ''TELEGRAM_TOKEN'' = Some t \<and> t \<noteq> []
      \<and> getenv rt ''TELEGRAM_CHAT_ID'' = Some c \<and> c \<noteq> []
      \<and> telebot_TeleBot rt (Some t) = None \<and> ccxt_binance rt = None \<longrightarrow>
      (\<exists>es. fst (snd (module_level rt w)) = [Log INFO msg_launching, Thread_start] @ es)
      \<and> snd (snd (module_level rt w)) \<noteq> None)"
proof (intro conjI impI)
  assume "getenv rt ''TELEGRAM_TOKEN'' = None \<or> getenv rt ''TELEGRAM_TOKEN'' = Some []
      \<or> getenv rt ''TELEGRAM_CHAT_ID'' = None \<or> getenv rt ''TELEGRAM_CHAT_ID'' = Some []"
  then have "\<not> truthy (TOKEN rt) \<or> \<not> truthy (CHAT_ID rt)"
    by (auto simp add: TOKEN_def CHAT_ID_def)
  then show "module_level rt w = (Inl (ValueError msg_env_missing), [], None)"
    by (simp add: module_level_def)
next
  assume a: "getenv rt ''TELEGRAM_TOKEN'' = Some t \<and> t \<noteq> []
      \<and> getenv rt ''TELEGRAM_CHAT_ID'' = Some c \<and> c \<noteq> []"
  then have ok: "truthy (TOKEN rt)" "truthy (CHAT_ID rt)" "TOKEN rt = Some t"
    by (simp_all add: TOKEN_def CHAT_ID_def)
  then show "module_level rt w =
        (case telebot_TeleBot rt (Some t) of
           Some e \<Rightarrow> (Inl e, [], None)
         | None \<Rightarrow>
             (case ccxt_binance rt of
                Some e \<Rightarrow> (Inl e, [], None)
              | None \<Rightarrow>
                  (fst (main rt w init), fst (snd (main rt w init)),
                   Some (snd (snd (main rt w init))))))"
    by (simp add: module_level_def split_beta split: option.splits)
next
  assume a: "getenv rt ''TELEGRAM_TOKEN'' = Some t \<and> t \<noteq> []
      \<and> getenv rt ''TELEGRAM_CHAT_ID'' = Some c \<and> c \<noteq> []
      \<and> telebot_TeleBot rt (Some t) = None \<and> ccxt_binance rt = None"
  then have ok: "truthy (TOKEN rt)" "truthy (CHAT_ID rt)" "TOKEN rt = Some t"
    by (simp_all add: TOKEN_def CHAT_ID_def)
  have m: "module_level rt w =
        (fst (main rt w init), fst (snd (main rt w init)), Some (snd (snd (main rt w init))))"
    using a ok by (simp add: module_level_def split_beta)
  show "\<exists>es. fst (snd (module_level rt w)) = [Log INFO msg_launching, Thread_start] @ es"
    using main_starts [of rt w init] by (simp add: m)
  show "snd (snd (module_level rt w)) \<noteq> None"
    by (simp add: m)
qed

theorem startup_needs_both_secrets_witness:
  "module_level (example_runtime\<lparr>getenv := (\<lambda>k. if k = ''TELEGRAM_TOKEN'' then Some ''1:a'' else None)\<rparr>)
       (example_world (Inr []) NaN (\<lambda>k. None))
     = (Inl (ValueError msg_env_missing), [], None)
   \<and> module_level (example_runtime\<lparr>getenv := (\<lambda>k. if k = ''TELEGRAM_TOKEN'' then Some ''1:a''
                                                   else Some [])\<rparr>)
       (example_world (Inr []) NaN (\<lambda>k. None))
     = (Inl (ValueError msg_env_missing), [], None)
   \<and> module_level example_runtime (example_world (Inr []) NaN (\<lambda>k. None))
     = (Inr (),
        [Log INFO msg_launching, Thread_start,
         Send_message (Chat_env (Some ''42'')) launched_text HTML Delivered,
         Log INFO msg_launched, Infinity_polling],
        Some init)
   \<and> module_level
       (example_runtime\<lparr>telebot_TeleBot :=
          (\<lambda>t. if t = Some ''1:a'' then Some (ValueError ''refused'') else None)\<rparr>)
       (example_world (Inr []) NaN (\<lambda>k. None))
     = (Inl (ValueError ''refused''), [], None)"
proof -
  let ?w = "example_world (Inr []) NaN (\<lambda>k. None)"
  have "main example_runtime ?w init =
          (Inr (),
           [Log INFO msg_launching, Thread_start,
            Send_message (Chat_env (Some ''42'')) launched_text HTML Delivered,
            Log INFO msg_launched, Infinity_polling],
           init)"
    by (simp add: main_def send_message_def example_world_def CHAT_ID_def example_runtime_def)
  then show ?thesis
    using startup_needs_both_secrets
            [of "example_runtime\<lparr>getenv := (\<lambda>k. if k = ''TELEGRAM_TOKEN'' then Some ''1:a'' else None)\<rparr>"
                ?w]
          startup_needs_both_secrets
            [of "example_runtime\<lparr>getenv := (\<lambda>k. if k = ''TELEGRAM_TOKEN'' then Some ''1:a''
                                                   else Some [])\<rparr>" ?w]
          startup_needs_both_secrets
            [where rt = example_runtime and t = "''1:a''" and c = "''42''" and w = ?w]
          startup_needs_both_secrets
            [where rt = "example_runtime\<lparr>telebot_TeleBot :=
                   (\<lambda>t. if t = Some ''1:a'' then Some (ValueError ''refused'') else None)\<rparr>"
               and t = "''1:a''" and c = "''42''" and w = ?w]
    by (simp add: example_runtime_def)
qed

end
